theory Spec2Isabelle
  imports Main "HOL-Library.Word" "HOL-Library.Monad_Syntax"
begin

unbundle bit_operations_syntax

section \<open>Go values used by the reconstruction engine\<close>

text \<open>
  A Go \<open>byte\<close> is an 8-bit word and a \<open>uint16\<close> a 16-bit word. A Go \<open>string\<close> is a
  sequence of bytes, which is what \<open>string\<close> (a list of 8-bit characters) is here. A Go
  \<open>int\<close> is modelled by \<open>int\<close>: every integer the engine computes is a slice length
  plus at most a few hundred, far from the 64-bit limit.

  A \<open>time.Time\<close> is the number of nanoseconds since Go's zero Time (the wall-clock
  and the monotonic reading of a Time are this one number), and \<open>Time.Sub\<close> saturates
  at the ends of the \<open>Duration\<close> range, as the standard library documents.
\<close>

type_synonym byte = "8 word"
type_synonym uint16 = "16 word"
type_synonym time = int
type_synonym duration = int

definition maxDuration :: duration where
  "maxDuration = 2 ^ 63 - 1"

definition minDuration :: duration where
  "minDuration = - (2 ^ 63)"

definition Minute :: duration where
  "Minute = 60 * 1000000000"

definition time_Sub :: "time \<Rightarrow> time \<Rightarrow> duration" where
  "time_Sub t u =
     (let d = t - u
      in if d > maxDuration then maxDuration
         else if d < minDuration then minDuration
         else d)"

text \<open>
  Indexing and slicing panic in Go when the index is out of range. The panic is the value
  \<open>None\<close>: \<open>at\<close> is \<open>data[i]\<close> and \<open>slice\<close> is \<open>data[lo:hi]\<close>, checked against the
  length of the slice.
\<close>

definition len :: "'a list \<Rightarrow> int" where
  "len xs = int (length xs)"

definition at :: "'a list \<Rightarrow> int \<Rightarrow> 'a option" where
  "at xs i = (if 0 \<le> i \<and> i < len xs then Some (xs ! nat i) else None)"

definition slice :: "'a list \<Rightarrow> int \<Rightarrow> int \<Rightarrow> 'a list option" where
  "slice xs lo hi =
     (if 0 \<le> lo \<and> lo \<le> hi \<and> hi \<le> len xs
      then Some (take (nat (hi - lo)) (drop (nat lo) xs))
      else None)"

text \<open>The conversion \<open>string(bs)\<close> keeps the bytes as they are.\<close>

definition string_of_bytes :: "byte list \<Rightarrow> string" where
  "string_of_bytes bs = map (\<lambda>b. char_of (unat b)) bs"

text \<open>The verb \<open>%d\<close> of \<open>fmt.Sprintf\<close> on a non-negative integer.\<close>

fun fmt_d :: "nat \<Rightarrow> string" where
  "fmt_d n =
     (if n < 10 then [char_of (48 + n)]
      else fmt_d (n div 10) @ [char_of (48 + n mod 10)])"

declare fmt_d.simps [simp del]

text \<open>
  The short-circuit conjunction \<open>a && b\<close> of two conditions that may panic: \<open>b\<close> is
  evaluated only when \<open>a\<close> is true.
\<close>

definition andalso :: "bool option \<Rightarrow> bool option \<Rightarrow> bool option" where
  "andalso a b = (case a of None \<Rightarrow> None | Some False \<Rightarrow> Some False | Some True \<Rightarrow> b)"

section \<open>The session store\<close>

text \<open>
  The field \<open>Status\<close> is a Go string that only ever holds one of five values: the
  literal of \<open>getOrCreateSession\<close> (connecting), the literal of
  \<open>handleUsernamePasswordAuth\<close> (authenticated), the literal of \<open>searchAuthInData\<close>
  (credentials extracted), and the two of \<open>handleConnectResponse\<close> (connected, and
  failed with the reply code formatted into the text).
\<close>

datatype status =
    Connecting
  | AuthSucceeded
  | AuthExtracted
  | ConnectSucceeded
  | ConnectFailed byte

record SOCKS5Session =
  SessionID :: string
  ProxyIP :: string
  ProxyPort :: uint16
  Username :: string
  Password :: string
  TargetHost :: string
  TargetPort :: uint16
  AuthTime :: time
  ConnectTime :: time
  Status :: status

text \<open>
  One audit report written to standard output by \<open>printSOCKS5AuthReport\<close>: the session
  it prints and the clock reading stored in \<open>lastAuthReport\<close> just before printing.
\<close>

record report =
  emitted_at :: time
  shown :: SOCKS5Session

text \<open>
  The monitor. The sessions are reached through pointers in the Go map; every key owns
  its own session object, so the map holds the session values and a handler's writes
  through the pointer are stored back under the key. \<open>printed\<close> is the sequence of
  reports written so far.
\<close>

record EnhancedSOCKS5Monitor =
  targetPID :: int
  authSessions :: "string \<rightharpoonup> SOCKS5Session"
  packetBuffer :: "string \<rightharpoonup> byte list"
  lastAuthReport :: time
  printed :: "report list"

definition NewEnhancedSOCKS5Monitor :: "int \<Rightarrow> EnhancedSOCKS5Monitor" where
  "NewEnhancedSOCKS5Monitor pid =
     \<lparr>targetPID = pid, authSessions = Map.empty, packetBuffer = Map.empty,
      lastAuthReport = 0, printed = []\<rparr>"

text \<open>
  The readings of \<open>time.Now()\<close> during one call of \<open>AnalyzePacket\<close>, in the order the
  code takes them: the timestamp stored in the session, the reading compared with
  \<open>lastAuthReport\<close> by \<open>time.Since\<close>, and the reading stored in \<open>lastAuthReport\<close>.
\<close>

record clock =
  tStamp :: time
  tCheck :: time
  tSet :: time

section \<open>The reconstruction engine\<close>

definition socksports :: "uint16 list" where
  "socksports = [1080, 1081, 7890, 7891, 8080, 8081, 9050, 9051]"

definition isSOCKS5Traffic :: "byte list \<Rightarrow> uint16 \<Rightarrow> bool option" where
  "isSOCKS5Traffic data dstPort =
     (if dstPort \<in> set socksports then Some True
      else do {
        a \<leftarrow> andalso (Some (len data \<ge> 2)) (map_option (\<lambda>b. b = 0x05) (at data 0));
        if a then Some True
        else do {
          b \<leftarrow> andalso (Some (len data \<ge> 1)) (map_option (\<lambda>b. b = 0x01) (at data 0));
          if b then Some True else Some False
        }
      })"

definition accumulatePacket ::
  "string \<Rightarrow> byte list \<Rightarrow> EnhancedSOCKS5Monitor \<Rightarrow> EnhancedSOCKS5Monitor option" where
  "accumulatePacket sessionKey data m =
     (let buf = (case packetBuffer m sessionKey of
                   Some existing \<Rightarrow> existing @ data
                 | None \<Rightarrow> data)
      in if len buf > 4096
         then do {
           cut \<leftarrow> slice buf 0 4096;
           Some (m\<lparr>packetBuffer := (packetBuffer m)(sessionKey \<mapsto> cut)\<rparr>)
         }
         else Some (m\<lparr>packetBuffer := (packetBuffer m)(sessionKey \<mapsto> buf)\<rparr>))"

definition getOrCreateSession ::
  "string \<Rightarrow> string \<Rightarrow> uint16 \<Rightarrow> EnhancedSOCKS5Monitor
   \<Rightarrow> SOCKS5Session \<times> EnhancedSOCKS5Monitor" where
  "getOrCreateSession sessionKey proxyIP proxyPort m =
     (case authSessions m sessionKey of
        Some session \<Rightarrow> (session, m)
      | None \<Rightarrow>
          (let session = \<lparr>SessionID = sessionKey, ProxyIP = proxyIP, ProxyPort = proxyPort,
                          Username = [], Password = [], TargetHost = [], TargetPort = 0,
                          AuthTime = 0, ConnectTime = 0, Status = Connecting\<rparr>
           in (session, m\<lparr>authSessions := (authSessions m)(sessionKey \<mapsto> session)\<rparr>)))"

definition isAuthNegotiation :: "byte list \<Rightarrow> bool option" where
  "isAuthNegotiation data =
     andalso (Some (len data \<ge> 3))
       (andalso (map_option (\<lambda>b. b = 0x05) (at data 0))
                (map_option (\<lambda>b. b \<ge> 0x01) (at data 1)))"

definition isUsernamePasswordAuth :: "byte list \<Rightarrow> bool option" where
  "isUsernamePasswordAuth data =
     andalso (Some (len data \<ge> 3)) (map_option (\<lambda>b. b = 0x01) (at data 0))"

definition isConnectRequest :: "byte list \<Rightarrow> bool option" where
  "isConnectRequest data =
     andalso (Some (len data \<ge> 4))
       (andalso (map_option (\<lambda>b. b = 0x05) (at data 0))
                (map_option (\<lambda>b. b = 0x01) (at data 1)))"

definition isConnectResponse :: "byte list \<Rightarrow> bool option" where
  "isConnectResponse data =
     andalso (Some (len data \<ge> 4))
       (andalso (map_option (\<lambda>b. b = 0x05) (at data 0))
                (map_option (\<lambda>b. b = 0x00) (at data 1)))"

text \<open>
  \<open>handleAuthNegotiation\<close> only writes log lines; its loop reads one method byte per
  round. The result is the list of method bytes it logs.
\<close>

function negotiation_methods :: "byte list \<Rightarrow> int \<Rightarrow> int \<Rightarrow> byte list option" where
  "negotiation_methods data methodCount i =
     (if i < methodCount \<and> i + 2 < len data
      then (case at data (2 + i) of
              None \<Rightarrow> None
            | Some method \<Rightarrow>
                (case negotiation_methods data methodCount (i + 1) of
                   None \<Rightarrow> None
                 | Some ms \<Rightarrow> Some (method # ms)))
      else Some [])"
  by pat_completeness auto
termination
  by (relation "measure (\<lambda>(data, methodCount, i). nat (methodCount - i))") auto

declare negotiation_methods.simps [simp del]

definition handleAuthNegotiation :: "SOCKS5Session \<Rightarrow> byte list \<Rightarrow> byte list option" where
  "handleAuthNegotiation session data =
     (if len data \<ge> 3
      then do {
        d1 \<leftarrow> at data 1;
        negotiation_methods data (uint d1) 0
      }
      else Some [])"

definition printSOCKS5AuthReport ::
  "clock \<Rightarrow> SOCKS5Session \<Rightarrow> EnhancedSOCKS5Monitor \<Rightarrow> EnhancedSOCKS5Monitor" where
  "printSOCKS5AuthReport ck session m =
     (if time_Sub (tCheck ck) (lastAuthReport m) < 1 * Minute then m
      else m\<lparr>lastAuthReport := tSet ck,
             printed := printed m @ [\<lparr>emitted_at = tSet ck, shown = session\<rparr>]\<rparr>)"

definition handleUsernamePasswordAuth ::
  "clock \<Rightarrow> SOCKS5Session \<Rightarrow> byte list \<Rightarrow> EnhancedSOCKS5Monitor
   \<Rightarrow> (SOCKS5Session \<times> EnhancedSOCKS5Monitor) option" where
  "handleUsernamePasswordAuth ck session data m =
     (if len data < 3 then Some (session, m)
      else do {
        d0 \<leftarrow> at data 0;
        if d0 \<noteq> 0x01 then Some (session, m)
        else do {
          d1 \<leftarrow> at data 1;
          let usernameLen = uint d1;
          if len data < 2 + usernameLen + 1 then Some (session, m)
          else do {
            u \<leftarrow> slice data 2 (2 + usernameLen);
            let username = string_of_bytes u;
            p \<leftarrow> at data (2 + usernameLen);
            let passwordLen = uint p;
            if len data < 2 + usernameLen + 1 + passwordLen then Some (session, m)
            else do {
              pw \<leftarrow> slice data (2 + usernameLen + 1) (2 + usernameLen + 1 + passwordLen);
              let password = string_of_bytes pw;
              let session' = session\<lparr>Username := username, Password := password,
                                      AuthTime := tStamp ck, Status := AuthSucceeded\<rparr>;
              Some (session', printSOCKS5AuthReport ck session' m)
            }
          }
        }
      })"

text \<open>
  The literal of the IPv6 branch of \<open>handleConnectRequest\<close>: the ASCII text \<open>IPv6\<close>
  followed by two Chinese characters, six bytes in UTF-8.
\<close>

definition ipv6_placeholder :: string where
  "ipv6_placeholder =
     ''IPv6'' @ map char_of [0xE5, 0x9C, 0xB0, 0xE5, 0x9D, 0x80 :: nat]"

definition be_port :: "byte \<Rightarrow> byte \<Rightarrow> uint16" where
  "be_port hi lo = push_bit 8 (ucast hi) + ucast lo"

definition connect_target :: "byte list \<Rightarrow> (string \<times> uint16) option" where
  "connect_target data = do {
     atyp \<leftarrow> at data 3;
     if atyp = 0x01 then
       (if len data \<ge> 10 then do {
          a \<leftarrow> at data 4; b \<leftarrow> at data 5; c \<leftarrow> at data 6; d \<leftarrow> at data 7;
          hi \<leftarrow> at data 8; lo \<leftarrow> at data 9;
          Some (fmt_d (unat a) @ ''.'' @ fmt_d (unat b) @ ''.'' @ fmt_d (unat c) @ ''.''
                  @ fmt_d (unat d),
                be_port hi lo)
        }
        else Some ([], 0))
     else if atyp = 0x03 then
       (if len data \<ge> 5 then do {
          d4 \<leftarrow> at data 4;
          let domainLen = uint d4;
          if len data \<ge> 5 + domainLen + 2 then do {
            host \<leftarrow> slice data 5 (5 + domainLen);
            hi \<leftarrow> at data (5 + domainLen);
            lo \<leftarrow> at data (5 + domainLen + 1);
            Some (string_of_bytes host, be_port hi lo)
          }
          else Some ([], 0)
        }
        else Some ([], 0))
     else if atyp = 0x04 then Some (ipv6_placeholder, 0)
     else Some ([], 0)
   }"

definition handleConnectRequest ::
  "clock \<Rightarrow> SOCKS5Session \<Rightarrow> byte list \<Rightarrow> EnhancedSOCKS5Monitor
   \<Rightarrow> (SOCKS5Session \<times> EnhancedSOCKS5Monitor) option" where
  "handleConnectRequest ck session data m =
     (if len data < 4 then Some (session, m)
      else do {
        cmd \<leftarrow> at data 1;
        (targetHost, targetPort) \<leftarrow> connect_target data;
        if targetHost \<noteq> [] then
          (let session' = session\<lparr>TargetHost := targetHost, TargetPort := targetPort,
                                   ConnectTime := tStamp ck\<rparr>
           in if Username session' \<noteq> []
              then Some (session', printSOCKS5AuthReport ck session' m)
              else Some (session', m))
        else Some (session, m)
      })"

definition handleConnectResponse ::
  "SOCKS5Session \<Rightarrow> byte list \<Rightarrow> SOCKS5Session option" where
  "handleConnectResponse session data =
     (if len data \<ge> 2
      then do {
        status \<leftarrow> at data 1;
        if status = 0x00 then Some (session\<lparr>Status := ConnectSucceeded\<rparr>)
        else Some (session\<lparr>Status := ConnectFailed status\<rparr>)
      }
      else Some session)"

text \<open>
  \<open>isPrintableString\<close> ranges over the runes of the string. A byte below 128 is its own
  rune; a byte from 128 on starts either a multi-byte rune or an invalid sequence
  (decoded as U+FFFD), both above 126, so the test on runes is the test on bytes.
\<close>

definition isPrintableString :: "string \<Rightarrow> bool" where
  "isPrintableString s =
     (if length s = 0 \<or> length s > 64 then False
      else list_all (\<lambda>r. \<not> ((of_char r :: nat) < 32 \<or> (of_char r :: nat) > 126)) s)"

text \<open>
  One round of the loop of \<open>searchAuthInData\<close> at offset \<open>i\<close>: \<open>Some (Some (u, p))\<close>
  when the round accepts credentials and returns, \<open>Some None\<close> when it falls through to
  the next round, \<open>None\<close> for a panic.
\<close>

definition searchAuth_at :: "byte list \<Rightarrow> int \<Rightarrow> (string \<times> string) option option" where
  "searchAuth_at data i = do {
     c \<leftarrow> andalso (map_option (\<lambda>b. b = 0x01) (at data i)) (Some (i + 1 < len data));
     if c then do {
       d1 \<leftarrow> at data (i + 1);
       let usernameLen = uint d1;
       if usernameLen > 0 \<and> usernameLen < 64 \<and> i + 2 + usernameLen < len data then do {
         u \<leftarrow> slice data (i + 2) (i + 2 + usernameLen);
         let username = string_of_bytes u;
         if i + 2 + usernameLen + 1 < len data then do {
           p \<leftarrow> at data (i + 2 + usernameLen);
           let passwordLen = uint p;
           if passwordLen > 0 \<and> passwordLen < 64
              \<and> i + 2 + usernameLen + 1 + passwordLen \<le> len data then do {
             pw \<leftarrow> slice data (i + 2 + usernameLen + 1) (i + 2 + usernameLen + 1 + passwordLen);
             let password = string_of_bytes pw;
             if isPrintableString username \<and> isPrintableString password
             then Some (Some (username, password))
             else Some None
           }
           else Some None
         }
         else Some None
       }
       else Some None
     }
     else Some None
   }"

function searchAuth_from :: "byte list \<Rightarrow> int \<Rightarrow> (string \<times> string) option option" where
  "searchAuth_from data i =
     (if i < len data - 3
      then (case searchAuth_at data i of
              None \<Rightarrow> None
            | Some (Some found) \<Rightarrow> Some (Some found)
            | Some None \<Rightarrow> searchAuth_from data (i + 1))
      else Some None)"
  by pat_completeness auto
termination
  by (relation "measure (\<lambda>(data, i). nat (len data - i))") auto

declare searchAuth_from.simps [simp del]

definition searchAuthInData ::
  "clock \<Rightarrow> SOCKS5Session \<Rightarrow> byte list \<Rightarrow> EnhancedSOCKS5Monitor
   \<Rightarrow> (SOCKS5Session \<times> EnhancedSOCKS5Monitor) option" where
  "searchAuthInData ck session data m =
     (if Username session \<noteq> [] then Some (session, m)
      else (case searchAuth_from data 0 of
              None \<Rightarrow> None
            | Some None \<Rightarrow> Some (session, m)
            | Some (Some (username, password)) \<Rightarrow>
                (let session' = session\<lparr>Username := username, Password := password,
                                        AuthTime := tStamp ck, Status := AuthExtracted\<rparr>
                 in Some (session', printSOCKS5AuthReport ck session' m))))"

text \<open>Storing a handler's writes to the session object back under its key.\<close>

definition store_session ::
  "string \<Rightarrow> SOCKS5Session \<times> EnhancedSOCKS5Monitor \<Rightarrow> EnhancedSOCKS5Monitor" where
  "store_session sessionKey r =
     (snd r)\<lparr>authSessions := (authSessions (snd r))(sessionKey \<mapsto> fst r)\<rparr>"

definition analyzeSOCKS5Protocol ::
  "clock \<Rightarrow> string \<Rightarrow> byte list \<Rightarrow> string \<Rightarrow> string \<Rightarrow> uint16 \<Rightarrow> uint16
   \<Rightarrow> EnhancedSOCKS5Monitor \<Rightarrow> EnhancedSOCKS5Monitor option" where
  "analyzeSOCKS5Protocol ck sessionKey data srcIP dstIP srcPort dstPort m =
     (if len data < 2 then Some m
      else
        (let (session, m1) = getOrCreateSession sessionKey dstIP dstPort m
         in do {
           c1 \<leftarrow> isAuthNegotiation data;
           if c1 then do { logged \<leftarrow> handleAuthNegotiation session data; Some m1 }
           else do {
             c2 \<leftarrow> isUsernamePasswordAuth data;
             if c2 then map_option (store_session sessionKey)
                          (handleUsernamePasswordAuth ck session data m1)
             else do {
               c3 \<leftarrow> isConnectRequest data;
               if c3 then map_option (store_session sessionKey)
                            (handleConnectRequest ck session data m1)
               else do {
                 c4 \<leftarrow> isConnectResponse data;
                 if c4 then map_option (\<lambda>s. store_session sessionKey (s, m1))
                              (handleConnectResponse session data)
                 else map_option (store_session sessionKey)
                        (searchAuthInData ck session data m1)
               }
             }
           }
         }))"

definition sessionKey_of :: "string \<Rightarrow> uint16 \<Rightarrow> string \<Rightarrow> uint16 \<Rightarrow> string" where
  "sessionKey_of srcIP srcPort dstIP dstPort =
     srcIP @ '':'' @ fmt_d (unat srcPort) @ ''->'' @ dstIP @ '':'' @ fmt_d (unat dstPort)"

definition AnalyzePacket ::
  "clock \<Rightarrow> byte list \<Rightarrow> string \<Rightarrow> string \<Rightarrow> uint16 \<Rightarrow> uint16
   \<Rightarrow> EnhancedSOCKS5Monitor \<Rightarrow> EnhancedSOCKS5Monitor option" where
  "AnalyzePacket ck data srcIP dstIP srcPort dstPort m =
     (let sessionKey = sessionKey_of srcIP srcPort dstIP dstPort
      in do {
        t \<leftarrow> isSOCKS5Traffic data dstPort;
        if \<not> t then Some m
        else do {
          m1 \<leftarrow> accumulatePacket sessionKey data m;
          analyzeSOCKS5Protocol ck sessionKey
            (case packetBuffer m1 sessionKey of Some buf \<Rightarrow> buf | None \<Rightarrow> [])
            srcIP dstIP srcPort dstPort m1
        }
      })"

text \<open>
  \<open>CleanupSessions\<close> ranges over the whole session map and deletes, for each session
  whose \<open>AuthTime\<close> is more than five minutes before \<open>now\<close>, the session and the buffer
  under the same key. A round of the loop reads and deletes under its own key only, so
  the order of the iteration does not matter and the result is given key by key.
\<close>

definition expired :: "time \<Rightarrow> SOCKS5Session \<Rightarrow> bool" where
  "expired now session \<longleftrightarrow> time_Sub now (AuthTime session) > 5 * Minute"

definition CleanupSessions :: "time \<Rightarrow> EnhancedSOCKS5Monitor \<Rightarrow> EnhancedSOCKS5Monitor" where
  "CleanupSessions now m =
     m\<lparr>authSessions :=
         (\<lambda>k. case authSessions m k of
                None \<Rightarrow> None
              | Some session \<Rightarrow> if expired now session then None else Some session),
       packetBuffer :=
         (\<lambda>k. case authSessions m k of
                None \<Rightarrow> packetBuffer m k
              | Some session \<Rightarrow> if expired now session then None else packetBuffer m k)\<rparr>"

text \<open>A sequence of events of one monitor: fragments handed to \<open>AnalyzePacket\<close> and
  runs of the reaper, each with its clock readings.\<close>

datatype event =
    Packet clock "byte list" string string uint16 uint16
  | Cleanup time

fun step :: "event \<Rightarrow> EnhancedSOCKS5Monitor \<Rightarrow> EnhancedSOCKS5Monitor option" where
  "step (Packet ck data srcIP dstIP srcPort dstPort) m =
     AnalyzePacket ck data srcIP dstIP srcPort dstPort m"
| "step (Cleanup now) m = Some (CleanupSessions now m)"

fun run :: "event list \<Rightarrow> EnhancedSOCKS5Monitor \<Rightarrow> EnhancedSOCKS5Monitor option" where
  "run [] m = Some m"
| "run (e # es) m = (case step e m of None \<Rightarrow> None | Some m' \<Rightarrow> run es m')"

text \<open>The bytes buffered for a key, and a sequence of fragments appended to one buffer.\<close>

definition buffered :: "EnhancedSOCKS5Monitor \<Rightarrow> string \<Rightarrow> byte list" where
  "buffered m k = (case packetBuffer m k of Some buf \<Rightarrow> buf | None \<Rightarrow> [])"

fun accumulate_all ::
  "string \<Rightarrow> byte list list \<Rightarrow> EnhancedSOCKS5Monitor \<Rightarrow> EnhancedSOCKS5Monitor option" where
  "accumulate_all k [] m = Some m"
| "accumulate_all k (d # ds) m =
     (case accumulatePacket k d m of None \<Rightarrow> None | Some m' \<Rightarrow> accumulate_all k ds m')"

section \<open>The frame classifier and the credential extractor of the capture program\<close>

text \<open>
  The capture program \<open>container_traffic_monitor\<close> sees one frame as the bytes between
  \<open>data\<close> and \<open>data_end\<close>. The header layouts are those of the Linux headers it includes:
  an Ethernet header of 14 bytes with the protocol in bytes 12 and 13, an IP header
  (\<open>struct iphdr\<close>, 20 bytes) with the header length in the low half of byte 0, the
  protocol in byte 9 and the addresses in bytes 12 to 19, and a TCP header
  (\<open>struct tcphdr\<close>, 20 bytes) with the ports in bytes 0 to 3 and the data offset in the
  high half of byte 12. Multi-byte fields are in network byte order.
\<close>

definition ntohs :: "byte \<Rightarrow> byte \<Rightarrow> uint16" where
  "ntohs b0 b1 = push_bit 8 (ucast b0) OR ucast b1"

definition ntohl :: "byte \<Rightarrow> byte \<Rightarrow> byte \<Rightarrow> byte \<Rightarrow> 32 word" where
  "ntohl b0 b1 b2 b3 =
     push_bit 24 (ucast b0) OR push_bit 16 (ucast b1) OR push_bit 8 (ucast b2) OR ucast b3"

record socks5_auth_event =
  pid :: "32 word"
  src_ip :: "32 word"
  dst_ip :: "32 word"
  src_port :: uint16
  dst_port :: uint16
  username :: "byte list"
  password :: "byte list"
  username_len :: byte
  password_len :: byte
  timestamp :: "64 word"

text \<open>
  Every path of the program returns \<open>TC_ACT_OK\<close>; what differs is where it returns. The
  return points before the protocol analysis are the values of \<open>drop_reason\<close>. A frame
  that passes them all is a \<open>segment\<close>: the addresses and ports read from the headers
  and the payload, the bytes from the payload pointer to \<open>data_end\<close>.
\<close>

datatype drop_reason =
    EthTruncated
  | NotIP
  | IpTruncated
  | NotTCP
  | TcpTruncated
  | NotSocksPort
  | NoPayload
  | ShortPayload

record segment =
  saddr :: "32 word"
  daddr :: "32 word"
  source :: uint16
  dest :: uint16
  payload :: "byte list"

definition classify :: "byte list \<Rightarrow> drop_reason + segment" where
  "classify frame =
     (if 14 > length frame then Inl EthTruncated
      else if ntohs (frame ! 12) (frame ! 13) \<noteq> 0x0800 then Inl NotIP
      else if 14 + 20 > length frame then Inl IpTruncated
      else if frame ! (14 + 9) \<noteq> 6 then Inl NotTCP
      else
        (let tcp = 14 + unat (frame ! 14 AND 0x0F) * 4
         in if tcp + 20 > length frame then Inl TcpTruncated
            else
              (let dst = ntohs (frame ! (tcp + 2)) (frame ! (tcp + 3))
               in if dst \<noteq> 1080 \<and> dst \<noteq> 1081 \<and> dst \<noteq> 7890
                     \<and> dst \<noteq> 7891 \<and> dst \<noteq> 8080 \<and> dst \<noteq> 8081
                  then Inl NotSocksPort
                  else
                    (let off = tcp + unat (drop_bit 4 (frame ! (tcp + 12))) * 4
                     in if off \<ge> length frame then Inl NoPayload
                        else if length frame - off < 3 then Inl ShortPayload
                        else Inr \<lparr>saddr = ntohl (frame ! 26) (frame ! 27) (frame ! 28) (frame ! 29),
                                  daddr = ntohl (frame ! 30) (frame ! 31) (frame ! 32) (frame ! 33),
                                  source = ntohs (frame ! tcp) (frame ! (tcp + 1)),
                                  dest = dst,
                                  payload = drop off frame\<rparr>))))"

text \<open>
  The two copy loops: at most 63 rounds, each guarded by the end of the frame. The result
  is the destination array and the index at which the loop stopped, where the terminating
  zero is then written.
\<close>

function copy_field :: "byte list \<Rightarrow> nat \<Rightarrow> nat \<Rightarrow> byte list \<Rightarrow> nat \<Rightarrow> byte list \<times> nat" where
  "copy_field p off n buf i =
     (if i < n \<and> i < 63
      then (if off + i + 1 > length p then (buf, i)
            else copy_field p off n (buf[i := p ! (off + i)]) (i + 1))
      else (buf, i))"
  by pat_completeness auto
termination
  by (relation "measure (\<lambda>(p, off, n, buf, i). 63 - i)") auto

declare copy_field.simps [simp del]

definition copied :: "byte list \<Rightarrow> nat \<Rightarrow> nat \<Rightarrow> byte list" where
  "copied p off n = (case copy_field p off n (replicate 64 0) 0 of (buf, i) \<Rightarrow> buf[i := 0])"

text \<open>
  The protocol analysis on the payload of a segment. \<open>pid_tgid\<close> and \<open>ktime\<close> are the
  values of \<open>bpf_get_current_pid_tgid\<close> and \<open>bpf_ktime_get_ns\<close>. The result is the
  event sent to user space together with the key under which it is stored in
  \<open>socks5_sessions\<close>, or \<open>None\<close> when no event is produced.
\<close>

definition extract_auth ::
  "64 word \<Rightarrow> 64 word \<Rightarrow> segment \<Rightarrow> (socks5_auth_event \<times> 64 word) option" where
  "extract_auth pid_tgid ktime seg =
     (let p = payload seg; payload_len = length p
      in if payload_len \<ge> 3 \<and> p ! 0 = 0x01 then
           (let ulen = p ! 1
            in if ulen > 0 \<and> ulen < 64 \<and> payload_len \<ge> 2 + unat ulen + 1 then
                 (let plen = p ! (2 + unat ulen)
                  in if plen > 0 \<and> plen < 64 \<and> payload_len \<ge> 2 + unat ulen + 1 + unat plen then
                       (let ev = \<lparr>pid = ucast (drop_bit 32 pid_tgid),
                                  src_ip = saddr seg,
                                  dst_ip = daddr seg,
                                  src_port = source seg,
                                  dst_port = dest seg,
                                  username = copied p 2 (unat ulen),
                                  password = copied p (2 + unat ulen + 1) (unat plen),
                                  username_len = ulen,
                                  password_len = plen,
                                  timestamp = ktime\<rparr>;
                            session_key = push_bit 32 (ucast (src_ip ev))
                                          OR push_bit 16 (ucast (src_port ev))
                                          OR ucast (dst_port ev)
                        in Some (ev, session_key))
                     else None)
               else None)
         else None)"

definition container_traffic_monitor ::
  "64 word \<Rightarrow> 64 word \<Rightarrow> byte list \<Rightarrow> (socks5_auth_event \<times> 64 word) option" where
  "container_traffic_monitor pid_tgid ktime frame =
     (case classify frame of
        Inl reason \<Rightarrow> None
      | Inr seg \<Rightarrow> extract_auth pid_tgid ktime seg)"

section \<open>A concrete connection for the end-to-end scenarios\<close>

text \<open>
  One client connection to a proxy on port 1080, observed by a new monitor, with clock
  readings in the year 2026 (nanoseconds since the zero Time). \<open>observe\<close> is what a
  scenario looks at afterwards: the session stored under the connection's key and the
  number of reports printed.
\<close>

definition ck0 :: clock where
  "ck0 = \<lparr>tStamp = 63900000000000000000, tCheck = 63900000000000001000,
          tSet = 63900000000000002000\<rparr>"

definition key0 :: string where
  "key0 = sessionKey_of ''10.0.0.2'' 40000 ''10.0.0.1'' 1080"

definition fresh_session :: SOCKS5Session where
  "fresh_session = fst (getOrCreateSession key0 ''10.0.0.1'' 1080 (NewEnhancedSOCKS5Monitor 7))"

definition feed :: "byte list \<Rightarrow> EnhancedSOCKS5Monitor \<Rightarrow> EnhancedSOCKS5Monitor option" where
  "feed data m = AnalyzePacket ck0 data ''10.0.0.2'' ''10.0.0.1'' 40000 1080 m"

definition observe ::
  "EnhancedSOCKS5Monitor option \<Rightarrow> (SOCKS5Session option \<times> nat) option" where
  "observe r = map_option (\<lambda>m. (authSessions m key0, length (printed m))) r"

text \<open>
  The username/password frame: one version byte, the length of the username, the
  username, the length of the password, the password. \<open>valid_auth_frame\<close> is the
  frame the claims call valid: version 1, both lengths between 1 and 63, and all the
  announced bytes present.
\<close>

definition ulen_of :: "byte list \<Rightarrow> nat" where
  "ulen_of data = unat (data ! 1)"

definition plen_of :: "byte list \<Rightarrow> nat" where
  "plen_of data = unat (data ! (2 + ulen_of data))"

definition uname_of :: "byte list \<Rightarrow> byte list" where
  "uname_of data = take (ulen_of data) (drop 2 data)"

definition passwd_of :: "byte list \<Rightarrow> byte list" where
  "passwd_of data = take (plen_of data) (drop (2 + ulen_of data + 1) data)"

definition valid_auth_frame :: "byte list \<Rightarrow> bool" where
  "valid_auth_frame data \<longleftrightarrow>
     3 \<le> length data \<and> data ! 0 = 0x01 \<and>
     1 \<le> ulen_of data \<and> ulen_of data \<le> 63 \<and> 2 + ulen_of data + 1 \<le> length data \<and>
     1 \<le> plen_of data \<and> plen_of data \<le> 63 \<and>
     2 + ulen_of data + 1 + plen_of data \<le> length data"

text \<open>The frames of the scenarios, and an Ethernet frame carrying the first of them from
  10.0.0.2:40000 to 10.0.0.1:1080.\<close>

definition bob_frame :: "byte list" where
  "bob_frame = [0x01, 0x03, 0x62, 0x6F, 0x62, 0x03, 0x78, 0x79, 0x7A]"

definition bob_packet :: "byte list" where
  "bob_packet =
     [0x02, 0x00, 0x00, 0x00, 0x00, 0x01, 0x02, 0x00, 0x00, 0x00, 0x00, 0x02, 0x08, 0x00,
      0x45, 0x00, 0x00, 0x31, 0x00, 0x00, 0x40, 0x00, 0x40, 0x06, 0x00, 0x00,
      0x0A, 0x00, 0x00, 0x02, 0x0A, 0x00, 0x00, 0x01,
      0x9C, 0x40, 0x04, 0x38, 0x00, 0x00, 0x00, 0x01, 0x00, 0x00, 0x00, 0x00,
      0x50, 0x18, 0xFF, 0xFF, 0x00, 0x00, 0x00, 0x00]
     @ bob_frame"

definition bob_segment :: segment where
  "bob_segment = \<lparr>saddr = 0x0A000002, daddr = 0x0A000001, source = 40000, dest = 1080,
                   payload = bob_frame\<rparr>"

definition connect_frame :: "byte list" where
  "connect_frame =
     [0x05, 0x01, 0x00, 0x03, 0x07, 0x65, 0x78, 0x61, 0x6D, 0x70, 0x6C, 0x65, 0x01, 0xBB]"

definition failure_reply :: "byte list" where
  "failure_reply = [0x05, 0x01, 0x00, 0x01, 0x00, 0x00, 0x00, 0x00, 0x00, 0x00]"

definition ulen64_frame :: "byte list" where
  "ulen64_frame = [0x01, 0x40] @ replicate 64 0x41 @ [0x01, 0x70]"

text \<open>
  Reports are spaced when any two of them, in the order printed, are at least one minute
  apart. An event has ordered readings when the clock did not go back between the
  comparison with \<open>lastAuthReport\<close> and the assignment to it.
\<close>

fun spaced :: "time list \<Rightarrow> bool" where
  "spaced [] = True"
| "spaced (t # ts) = (list_all (\<lambda>u. Minute \<le> u - t) ts \<and> spaced ts)"

fun ordered_readings :: "event \<Rightarrow> bool" where
  "ordered_readings (Packet ck data srcIP dstIP srcPort dstPort) = (tCheck ck \<le> tSet ck)"
| "ordered_readings (Cleanup now) = True"

text \<open>
  The invariant of the report log: no report is later than \<open>lastAuthReport\<close>, and the
  reports are spaced. Then the fourth scenario: a second connection sends the same
  credentials thirty seconds after the first, and a monitor that printed a report at the
  first clock reading.
\<close>

definition report_inv :: "EnhancedSOCKS5Monitor \<Rightarrow> bool" where
  "report_inv m \<longleftrightarrow>
     list_all (\<lambda>r. emitted_at r \<le> lastAuthReport m) (printed m) \<and>
     spaced (map emitted_at (printed m))"

definition ck1 :: clock where
  "ck1 = \<lparr>tStamp = 63900000030000000000, tCheck = 63900000030000001000,
          tSet = 63900000030000002000\<rparr>"

definition key1 :: string where
  "key1 = sessionKey_of ''10.0.0.3'' 40001 ''10.0.0.1'' 1080"

definition two_sessions :: "event list" where
  "two_sessions =
     [Packet ck0 bob_frame ''10.0.0.2'' ''10.0.0.1'' 40000 1080,
      Packet ck1 bob_frame ''10.0.0.3'' ''10.0.0.1'' 40001 1080]"

definition in_cooldown :: EnhancedSOCKS5Monitor where
  "in_cooldown = (NewEnhancedSOCKS5Monitor 7)\<lparr>lastAuthReport := tSet ck0\<rparr>"

text \<open>
  The two halves of a monitor: the store (sessions and buffers) and the report state
  (\<open>lastAuthReport\<close> and the reports printed). Then a fragment in which the
  username/password frame starts at offset 1, so that only the fallback scan finds it, the
  fourth scenario with that fragment on the second connection, and a frame whose password
  length is 0.
\<close>

definition store_of ::
  "EnhancedSOCKS5Monitor \<Rightarrow> (string \<rightharpoonup> SOCKS5Session) \<times> (string \<rightharpoonup> byte list)" where
  "store_of m = (authSessions m, packetBuffer m)"

definition report_state :: "EnhancedSOCKS5Monitor \<Rightarrow> time \<times> report list" where
  "report_state m = (lastAuthReport m, printed m)"

definition scan_frame :: "byte list" where
  "scan_frame = 0x00 # bob_frame"

definition two_sessions_scan :: "event list" where
  "two_sessions_scan =
     [Packet ck0 bob_frame ''10.0.0.2'' ''10.0.0.1'' 40000 1080,
      Packet ck1 scan_frame ''10.0.0.3'' ''10.0.0.1'' 40001 1080]"

definition plen0_frame :: "byte list" where
  "plen0_frame = [0x01, 0x03, 0x62, 0x6F, 0x62, 0x00]"

section \<open>The packet buffer stays within its cap\<close>

lemma accumulatePacket_eq:
  "accumulatePacket k d m =
     Some (m\<lparr>packetBuffer := (packetBuffer m)(k \<mapsto> take 4096 (buffered m k @ d))\<rparr>)"
  by (cases "packetBuffer m k")
     (simp_all add: accumulatePacket_def buffered_def slice_def len_def Let_def)

lemma take_take_append: "take n (take n xs @ ys) = take n (xs @ ys)"
  by (induction xs arbitrary: n) (auto simp: take_Cons split: nat.splits)

lemma accumulate_all_buffered:
  "\<exists>m'. accumulate_all k frags m = Some m' \<and>
     (frags \<noteq> [] \<longrightarrow> packetBuffer m' k = Some (take 4096 (buffered m k @ concat frags)))"
proof (induction frags arbitrary: m)
  case Nil
  then show ?case by simp
next
  case (Cons d ds)
  let ?m1 = "m\<lparr>packetBuffer := (packetBuffer m)(k \<mapsto> take 4096 (buffered m k @ d))\<rparr>"
  have b1: "buffered ?m1 k = take 4096 (buffered m k @ d)"
    by (simp add: buffered_def)
  from Cons.IH [of ?m1] obtain m' where
    run: "accumulate_all k ds ?m1 = Some m'" and
    buf: "ds \<noteq> [] \<longrightarrow> packetBuffer m' k = Some (take 4096 (buffered ?m1 k @ concat ds))"
    by blast
  show ?case
  proof (cases ds)
    case Nil
    with run show ?thesis by (auto simp: accumulatePacket_eq)
  next
    case (Cons e es)
    with buf have "packetBuffer m' k = Some (take 4096 (buffered ?m1 k @ concat ds))"
      by blast
    then have "packetBuffer m' k = Some (take 4096 (buffered m k @ concat (d # ds)))"
      unfolding b1 take_take_append by simp
    with run show ?thesis by (simp add: accumulatePacket_eq del: take_append)
  qed
qed

text \<open>
  Claim C7. Whatever fragments are appended to the buffer of a connection, and whatever
  the buffer held before, every append succeeds (the cut \<open>[:4096]\<close> is never out of
  range) and afterwards the buffer is the first 4096 bytes of everything appended so far,
  in order: it never holds more than 4096 bytes, the bytes kept are the oldest ones, and
  the excess is dropped. The statement holds for every sequence of fragments, hence after
  each append of a longer sequence.
\<close>

theorem accumulatePacket_capped:
  "frags \<noteq> [] \<Longrightarrow>
   \<exists>m' buf. accumulate_all k frags m = Some m' \<and> packetBuffer m' k = Some buf \<and>
     buf = take 4096 (buffered m k @ concat frags) \<and> length buf \<le> 4096"
  using accumulate_all_buffered [of k frags m] by auto

theorem accumulatePacket_capped_witness:
  "[[0x05, 0x01], [0x00 :: byte]] \<noteq> [] \<and>
   (\<exists>m' buf. accumulate_all ''c'' [[0x05, 0x01], [0x00]] (NewEnhancedSOCKS5Monitor 1) = Some m' \<and>
      packetBuffer m' ''c'' = Some buf \<and> buf = [0x05, 0x01, 0x00] \<and> length buf \<le> 4096)"
  using accumulatePacket_capped [of "[[0x05, 0x01], [0x00]]" "''c''" "NewEnhancedSOCKS5Monitor 1"]
  by (simp add: buffered_def NewEnhancedSOCKS5Monitor_def)

section \<open>What each operation of the engine computes\<close>

lemma andalso_Some [simp]: "andalso (Some c) b = (if c then b else Some False)"
  by (simp add: andalso_def)

lemma andalso_None [simp]: "andalso None b = None"
  by (simp add: andalso_def)

lemma string_of_bytes_Nil [simp]: "string_of_bytes [] = []"
  by (simp add: string_of_bytes_def)

lemma length_string_of_bytes [simp]: "length (string_of_bytes bs) = length bs"
  by (simp add: string_of_bytes_def)

lemma string_of_bytes_eq_Nil [simp]: "string_of_bytes bs = [] \<longleftrightarrow> bs = []"
  by (simp add: string_of_bytes_def)

lemma unat_byte_bound: "unat (b :: byte) < 256"
  using unsigned_less [of b, where ?'a = nat] by simp

lemma string_of_bytes_unmodified:
  "map (\<lambda>c. of_nat (of_char c)) (string_of_bytes bs) = (bs :: byte list)"
  by (induction bs) (simp_all add: string_of_bytes_def unat_byte_bound)

lemma isAuthNegotiation_eq:
  "isAuthNegotiation data = Some (3 \<le> length data \<and> data ! 0 = 0x05 \<and> 0x01 \<le> data ! 1)"
  by (simp add: isAuthNegotiation_def at_def len_def)

lemma isUsernamePasswordAuth_eq:
  "isUsernamePasswordAuth data = Some (3 \<le> length data \<and> data ! 0 = 0x01)"
  by (simp add: isUsernamePasswordAuth_def at_def len_def)

lemma isConnectRequest_eq:
  "isConnectRequest data = Some (4 \<le> length data \<and> data ! 0 = 0x05 \<and> data ! 1 = 0x01)"
  by (simp add: isConnectRequest_def at_def len_def)

lemma isConnectResponse_eq:
  "isConnectResponse data = Some (4 \<le> length data \<and> data ! 0 = 0x05 \<and> data ! 1 = 0x00)"
  by (simp add: isConnectResponse_def at_def len_def)

lemma isSOCKS5Traffic_eq:
  "isSOCKS5Traffic data dstPort =
     Some (dstPort \<in> set socksports \<or> (2 \<le> length data \<and> data ! 0 = 0x05)
           \<or> (1 \<le> length data \<and> data ! 0 = 0x01))"
  by (simp add: isSOCKS5Traffic_def at_def len_def)

lemma negotiation_methods_total:
  "0 \<le> i \<Longrightarrow> \<exists>ms. negotiation_methods data n i = Some ms"
proof (induction data n i rule: negotiation_methods.induct)
  case (1 data methodCount i)
  show ?case
  proof (cases "i < methodCount \<and> i + 2 < len data")
    case False
    then show ?thesis by (subst negotiation_methods.simps) auto
  next
    case True
    with "1.prems" have a: "at data (2 + i) = Some (data ! nat (2 + i))"
      by (simp add: at_def)
    from "1.IH" [OF True a] "1.prems" obtain ms
      where "negotiation_methods data methodCount (i + 1) = Some ms" by auto
    with True a show ?thesis by (subst negotiation_methods.simps) simp
  qed
qed

lemma handleAuthNegotiation_total: "\<exists>ms. handleAuthNegotiation session data = Some ms"
  using negotiation_methods_total [of 0 data "uint (data ! 1)"]
  by (simp add: handleAuthNegotiation_def at_def len_def)

lemma handleUsernamePasswordAuth_eq:
  "handleUsernamePasswordAuth ck session data m =
     (if length data < 3 \<or> data ! 0 \<noteq> 0x01
         \<or> length data < 2 + unat (data ! 1) + 1
         \<or> length data < 2 + unat (data ! 1) + 1 + unat (data ! (2 + unat (data ! 1)))
      then Some (session, m)
      else
        (let session' = session\<lparr>
               Username := string_of_bytes (take (unat (data ! 1)) (drop 2 data)),
               Password := string_of_bytes
                 (take (unat (data ! (2 + unat (data ! 1)))) (drop (2 + unat (data ! 1) + 1) data)),
               AuthTime := tStamp ck, Status := AuthSucceeded\<rparr>
         in Some (session', printSOCKS5AuthReport ck session' m)))"
  by (auto simp add: handleUsernamePasswordAuth_def at_def slice_def len_def Let_def uint_nat nat_add_distrib numeral_3_eq_3
      simp del: of_nat_unat)

lemma handleUsernamePasswordAuth_total:
  "\<exists>r. handleUsernamePasswordAuth ck session data m = Some r"
  by (simp add: handleUsernamePasswordAuth_eq Let_def)

lemma connect_target_total:
  "4 \<le> length data \<Longrightarrow> \<exists>r. connect_target data = Some r"
  by (auto simp add: connect_target_def at_def slice_def len_def Let_def uint_nat
      simp del: of_nat_unat)

lemma handleConnectRequest_total:
  "\<exists>r. handleConnectRequest ck session data m = Some r"
proof (cases "len data < 4")
  case True
  then show ?thesis by (simp add: handleConnectRequest_def)
next
  case False
  then have "4 \<le> length data" by (simp add: len_def)
  then obtain h p where "connect_target data = Some (h, p)"
    using connect_target_total [of data] by auto
  with False show ?thesis
    by (simp add: handleConnectRequest_def at_def Let_def)
qed

lemma handleConnectResponse_total:
  "\<exists>r. handleConnectResponse session data = Some r"
  by (simp add: handleConnectResponse_def at_def len_def)

lemma searchAuth_at_total:
  "0 \<le> i \<Longrightarrow> i < len data \<Longrightarrow> \<exists>r. searchAuth_at data i = Some r"
  by (auto simp add: searchAuth_at_def at_def slice_def len_def Let_def uint_nat
      simp del: of_nat_unat)

lemma searchAuth_at_printable:
  "searchAuth_at data i = Some (Some (u, p)) \<Longrightarrow> isPrintableString u \<and> isPrintableString p"
  by (auto simp add: searchAuth_at_def Let_def split: Option.bind_splits if_splits)

lemma searchAuth_from_total:
  "0 \<le> i \<Longrightarrow> \<exists>r. searchAuth_from data i = Some r"
proof (induction data i rule: searchAuth_from.induct)
  case (1 data i)
  show ?case
  proof (cases "i < len data - 3")
    case False
    then show ?thesis by (subst searchAuth_from.simps) auto
  next
    case True
    with "1.prems" obtain r where r: "searchAuth_at data i = Some r"
      using searchAuth_at_total [of i data] by auto
    show ?thesis
    proof (cases r)
      case None
      with "1.IH" [OF True] r "1.prems" obtain r' where "searchAuth_from data (i + 1) = Some r'"
        by auto
      with True r None show ?thesis by (subst searchAuth_from.simps) simp
    next
      case (Some found)
      with True r show ?thesis by (subst searchAuth_from.simps) simp
    qed
  qed
qed

lemma searchAuth_from_printable:
  "searchAuth_from data i = Some (Some (u, p)) \<Longrightarrow> isPrintableString u \<and> isPrintableString p"
proof (induction data i rule: searchAuth_from.induct)
  case (1 data i)
  from "1.prems" have g: "i < len data - 3"
    by (subst (asm) searchAuth_from.simps) (simp split: if_splits)
  show ?case
  proof (cases "searchAuth_at data i")
    case None
    with "1.prems" g show ?thesis by (subst (asm) searchAuth_from.simps) simp
  next
    case (Some r)
    show ?thesis
    proof (cases r)
      case None
      with Some "1.prems" g have "searchAuth_from data (i + 1) = Some (Some (u, p))"
        by (subst (asm) searchAuth_from.simps) simp
      with "1.IH" [OF g] Some None show ?thesis by simp
    next
      case found: (Some c)
      with Some "1.prems" g have "c = (u, p)"
        by (subst (asm) searchAuth_from.simps) simp
      with Some found show ?thesis using searchAuth_at_printable [of data i u p] by simp
    qed
  qed
qed

lemma searchAuthInData_total:
  "\<exists>r. searchAuthInData ck session data m = Some r"
  using searchAuth_from_total [of 0 data]
  by (auto simp: searchAuthInData_def Let_def split: option.splits)

lemma analyzeSOCKS5Protocol_total:
  "\<exists>m'. analyzeSOCKS5Protocol ck k data srcIP dstIP srcPort dstPort m = Some m'"
proof -
  obtain session m1 where g: "getOrCreateSession k dstIP dstPort m = (session, m1)"
    by (cases "getOrCreateSession k dstIP dstPort m")
  obtain ms where "handleAuthNegotiation session data = Some ms"
    using handleAuthNegotiation_total by blast
  moreover obtain r1 where "handleUsernamePasswordAuth ck session data m1 = Some r1"
    using handleUsernamePasswordAuth_total by blast
  moreover obtain r2 where "handleConnectRequest ck session data m1 = Some r2"
    using handleConnectRequest_total by blast
  moreover obtain r3 where "handleConnectResponse session data = Some r3"
    using handleConnectResponse_total by blast
  moreover obtain r4 where "searchAuthInData ck session data m1 = Some r4"
    using searchAuthInData_total by blast
  ultimately show ?thesis
    by (simp add: analyzeSOCKS5Protocol_def g isAuthNegotiation_eq isUsernamePasswordAuth_eq
        isConnectRequest_eq isConnectResponse_eq)
qed

lemma AnalyzePacket_total:
  "\<exists>m'. AnalyzePacket ck data srcIP dstIP srcPort dstPort m = Some m'"
  using analyzeSOCKS5Protocol_total
  by (simp add: AnalyzePacket_def isSOCKS5Traffic_eq accumulatePacket_eq Let_def)

lemma run_total: "\<exists>m'. run evs m = Some m'"
proof (induction evs arbitrary: m)
  case Nil
  show ?case by simp
next
  case (Cons e es)
  have "\<exists>m1. step e m = Some m1"
    by (cases e) (simp_all add: AnalyzePacket_total)
  then obtain m1 where "step e m = Some m1" ..
  with Cons.IH [of m1] show ?case by simp
qed

section \<open>The capture program's copy loops and extractor\<close>

lemma copy_field_full:
  "i \<le> n \<Longrightarrow> n \<le> 63 \<Longrightarrow> off + n \<le> length p \<Longrightarrow> length buf = 64 \<Longrightarrow>
   copy_field p off n buf i = (buf', j) \<Longrightarrow>
   j = n \<and> length buf' = 64 \<and> take n buf' = take i buf @ take (n - i) (drop (off + i) p)"
proof (induction p off n buf i rule: copy_field.induct)
  case (1 p off n buf i)
  show ?case
  proof (cases "i < n")
    case False
    then have "copy_field p off n buf i = (buf, i)"
      by (subst copy_field.simps) simp
    with "1.prems" False show ?thesis by auto
  next
    case True
    with "1.prems" have g: "i < n \<and> i < 63" and ng: "\<not> off + i + 1 > length p"
      by auto
    from g ng have "copy_field p off n buf i = copy_field p off n (buf[i := p ! (off + i)]) (i + 1)"
      by (subst copy_field.simps) simp
    with "1.prems" have rec: "copy_field p off n (buf[i := p ! (off + i)]) (i + 1) = (buf', j)"
      by simp
    from "1.IH" [OF g ng _ _ _ _ rec] "1.prems" g
    have ih: "j = n" "length buf' = 64"
      "take n buf' = take (i + 1) (buf[i := p ! (off + i)]) @ take (n - (i + 1)) (drop (off + (i + 1)) p)"
      by auto
    from "1.prems" g have t1: "take (i + 1) (buf[i := p ! (off + i)]) = take i buf @ [p ! (off + i)]"
      by (simp add: take_Suc_conv_app_nth)
    from "1.prems" g have t2: "p ! (off + i) # take (n - (i + 1)) (drop (off + (i + 1)) p)
        = take (n - i) (drop (off + i) p)"
    proof -
      from g obtain d where d: "n - i = Suc d" "n - (i + 1) = d"
        by (cases "n - i") auto
      from "1.prems" g have "off + i < length p" by simp
      then have "drop (off + i) p = p ! (off + i) # drop (off + (i + 1)) p"
        by (simp add: Cons_nth_drop_Suc)
      with d show ?thesis by simp
    qed
    from ih t1 t2 show ?thesis by simp
  qed
qed

lemma copied_full:
  assumes "n \<le> 63" and "off + n \<le> length p"
  shows "length (copied p off n) = 64 \<and> take n (copied p off n) = take n (drop off p)
         \<and> copied p off n ! n = 0"
proof -
  obtain buf' j where c: "copy_field p off n (replicate 64 0) 0 = (buf', j)"
    by (cases "copy_field p off n (replicate 64 0) 0")
  from copy_field_full [OF _ assms _ c] have "j = n" "length buf' = 64" "take n buf' = take n (drop off p)"
    by auto
  with c assms show ?thesis by (simp add: copied_def)
qed

lemma byte_pos: "0 < (w::byte) \<longleftrightarrow> 1 \<le> unat w"
  by (simp add: word_greater_zero_iff unat_eq_0 Suc_le_eq unat_gt_0)

lemma byte_lt64: "(w::byte) < 64 \<longleftrightarrow> unat w \<le> 63"
  by (auto simp: word_less_nat_alt)

lemma extract_auth_eq:
  "extract_auth pid_tgid ktime seg =
     (let p = payload seg; ulen = unat (p ! 1); plen = unat (p ! (2 + ulen))
      in if 3 \<le> length p \<and> p ! 0 = 0x01 \<and> 1 \<le> ulen \<and> ulen \<le> 63 \<and> 2 + ulen + 1 \<le> length p
            \<and> 1 \<le> plen \<and> plen \<le> 63 \<and> 2 + ulen + 1 + plen \<le> length p
         then Some (\<lparr>pid = ucast (drop_bit 32 pid_tgid), src_ip = saddr seg, dst_ip = daddr seg,
                      src_port = source seg, dst_port = dest seg,
                      username = copied p 2 ulen, password = copied p (2 + ulen + 1) plen,
                      username_len = p ! 1, password_len = p ! (2 + ulen), timestamp = ktime\<rparr>,
                    push_bit 32 (ucast (saddr seg)) OR push_bit 16 (ucast (source seg))
                      OR ucast (dest seg))
         else None)"
  by (auto simp: extract_auth_def Let_def byte_pos byte_lt64)

lemma classify_matching:
  "classify frame = Inr seg \<Longrightarrow>
     dest seg \<in> {1080, 1081, 7890, 7891, 8080, 8081} \<and> 3 \<le> length (payload seg)"
  by (auto simp: classify_def Let_def split: if_splits)

section \<open>Valid username/password frames\<close>

lemmas frame_defs = valid_auth_frame_def ulen_of_def plen_of_def uname_of_def passwd_of_def

lemmas engine_defs =
  feed_def AnalyzePacket_def isSOCKS5Traffic_eq socksports_def accumulatePacket_eq buffered_def
  analyzeSOCKS5Protocol_def getOrCreateSession_def
  isAuthNegotiation_eq isUsernamePasswordAuth_eq isConnectRequest_eq isConnectResponse_eq
  handleUsernamePasswordAuth_eq
  printSOCKS5AuthReport_def time_Sub_def Minute_def maxDuration_def minDuration_def
  store_session_def NewEnhancedSOCKS5Monitor_def Let_def len_def

lemma str_bob: "string_of_bytes [0x62, 0x6F, 0x62] = ''bob''"
  by code_simp

lemma str_xyz: "string_of_bytes [0x78, 0x79, 0x7A] = ''xyz''"
  by code_simp

lemma str_p: "string_of_bytes [0x70] = ''p''"
  by code_simp

lemma str_example: "string_of_bytes [0x65, 0x78, 0x61, 0x6D, 0x70, 0x6C, 0x65] = ''example''"
  by code_simp

lemma valid_bob_frame: "valid_auth_frame bob_frame"
  by (simp add: frame_defs bob_frame_def)

lemma handleUsernamePasswordAuth_valid:
  assumes "valid_auth_frame data"
  shows "handleUsernamePasswordAuth ck session data m =
           Some (session\<lparr>Username := string_of_bytes (uname_of data),
                          Password := string_of_bytes (passwd_of data),
                          AuthTime := tStamp ck, Status := AuthSucceeded\<rparr>,
                 printSOCKS5AuthReport ck
                   (session\<lparr>Username := string_of_bytes (uname_of data),
                             Password := string_of_bytes (passwd_of data),
                             AuthTime := tStamp ck, Status := AuthSucceeded\<rparr>) m)"
  using assms by (simp add: handleUsernamePasswordAuth_eq frame_defs Let_def)

lemma extract_auth_valid:
  assumes "valid_auth_frame (payload seg)"
  shows "\<exists>ev key. extract_auth pid_tgid ktime seg = Some (ev, key) \<and>
           unat (username_len ev) = ulen_of (payload seg) \<and>
           unat (password_len ev) = plen_of (payload seg) \<and>
           take (ulen_of (payload seg)) (username ev) = uname_of (payload seg) \<and>
           take (plen_of (payload seg)) (password ev) = passwd_of (payload seg)"
proof -
  let ?p = "payload seg"
  from assms have u: "ulen_of ?p \<le> 63" "2 + ulen_of ?p \<le> length ?p"
    and p: "plen_of ?p \<le> 63" "2 + ulen_of ?p + 1 + plen_of ?p \<le> length ?p"
    by (simp_all add: valid_auth_frame_def)
  from copied_full [OF u] copied_full [OF p] assms show ?thesis
    by (simp add: extract_auth_eq frame_defs Let_def)
qed

lemma extract_auth_fails_closed:
  "\<not> valid_auth_frame (payload seg) \<Longrightarrow> extract_auth pid_tgid ktime seg = None"
  by (auto simp: extract_auth_eq frame_defs Let_def)

lemma bob_end_to_end:
  "observe (feed bob_frame (NewEnhancedSOCKS5Monitor 7)) =
     Some (Some (fresh_session\<lparr>Username := ''bob'', Password := ''xyz'',
                                 AuthTime := tStamp ck0, Status := AuthSucceeded\<rparr>), 1)"
  by (simp add: observe_def key0_def fresh_session_def ck0_def bob_frame_def engine_defs
      str_bob str_xyz)

lemma classify_bob_packet: "classify bob_packet = Inr bob_segment"
  by (simp add: classify_def bob_packet_def bob_frame_def bob_segment_def ntohs_def ntohl_def
      Let_def)

text \<open>
  Claim C2. For every payload that is a valid username/password frame (first byte 1, both
  lengths between 1 and 63, and at least 2 + ULEN + 1 + PLEN bytes), the user-space
  extractor \<open>handleUsernamePasswordAuth\<close> stores exactly the ULEN username bytes and
  the PLEN password bytes of the frame, converted to strings byte by byte (a conversion
  that loses nothing, \<open>string_of_bytes_unmodified\<close>), and marks the session
  authenticated; the capture program's extractor produces an event whose length
  fields are ULEN and PLEN and whose username and password arrays start with exactly those
  bytes. End to end, the frame 01 03 b o b 03 x y z handed to a new monitor leaves the
  session with username bob, password xyz and the status of a successful authentication,
  and one report printed.
\<close>

theorem valid_auth_frame_extracted:
  assumes "valid_auth_frame data" and "payload seg = data"
  shows "(\<exists>session'. handleUsernamePasswordAuth ck session data m
                         = Some (session', printSOCKS5AuthReport ck session' m) \<and>
            Username session' = string_of_bytes (uname_of data) \<and>
            Password session' = string_of_bytes (passwd_of data) \<and>
            length (Username session') = ulen_of data \<and>
            length (Password session') = plen_of data \<and>
            Status session' = AuthSucceeded) \<and>
         (\<exists>ev key. extract_auth pid_tgid ktime seg = Some (ev, key) \<and>
            unat (username_len ev) = ulen_of data \<and>
            unat (password_len ev) = plen_of data \<and>
            take (ulen_of data) (username ev) = uname_of data \<and>
            take (plen_of data) (password ev) = passwd_of data) \<and>
         observe (feed bob_frame (NewEnhancedSOCKS5Monitor 7)) =
           Some (Some (fresh_session\<lparr>Username := ''bob'', Password := ''xyz'',
                                       AuthTime := tStamp ck0, Status := AuthSucceeded\<rparr>), 1)"
proof -
  from assms have l: "length (uname_of data) = ulen_of data" "length (passwd_of data) = plen_of data"
    by (auto simp add: frame_defs)
  from assms extract_auth_valid [of seg pid_tgid ktime] l show ?thesis
    by (simp add: handleUsernamePasswordAuth_valid bob_end_to_end)
qed

theorem valid_auth_frame_extracted_witness:
  "valid_auth_frame bob_frame \<and> payload bob_segment = bob_frame \<and>
   (\<exists>session'. handleUsernamePasswordAuth ck0 fresh_session bob_frame (NewEnhancedSOCKS5Monitor 7)
                   = Some (session', printSOCKS5AuthReport ck0 session' (NewEnhancedSOCKS5Monitor 7)) \<and>
      Username session' = ''bob'' \<and> Password session' = ''xyz'' \<and>
      Status session' = AuthSucceeded) \<and>
   (\<exists>ev key. container_traffic_monitor 0x700000007 5 bob_packet = Some (ev, key) \<and>
      unat (username_len ev) = 3 \<and> unat (password_len ev) = 3 \<and>
      take 3 (username ev) = [0x62, 0x6F, 0x62] \<and> take 3 (password ev) = [0x78, 0x79, 0x7A])"
proof -
  have v: "valid_auth_frame bob_frame"
    by (simp add: frame_defs bob_frame_def)
  have s: "payload bob_segment = bob_frame"
    by (simp add: bob_segment_def)
  have f: "ulen_of bob_frame = 3" "plen_of bob_frame = 3"
    "string_of_bytes (uname_of bob_frame) = ''bob''" "string_of_bytes (passwd_of bob_frame) = ''xyz''"
    "uname_of bob_frame = [0x62, 0x6F, 0x62]" "passwd_of bob_frame = [0x78, 0x79, 0x7A]"
    by (simp_all add: frame_defs bob_frame_def str_bob str_xyz)
  from valid_auth_frame_extracted [OF v s, of ck0 fresh_session "NewEnhancedSOCKS5Monitor 7" "0x700000007" 5]
  show ?thesis
    by (auto simp add: v s f str_bob str_xyz container_traffic_monitor_def classify_bob_packet)
qed

section \<open>The dispatch on the leading bytes\<close>

lemma connect_request_is_negotiation:
  "isConnectRequest data = Some True \<Longrightarrow> isAuthNegotiation data = Some True"
  by (simp add: isConnectRequest_eq isAuthNegotiation_eq)

lemma failure_reply_is_negotiation:
  "3 \<le> length data \<Longrightarrow> data ! 0 = 0x05 \<Longrightarrow> data ! 1 \<noteq> 0x00 \<Longrightarrow>
   isAuthNegotiation data = Some True \<and> isConnectResponse data = Some False"
  by (simp add: isConnectResponse_eq isAuthNegotiation_eq word_le_nat_alt unat_gt_0 Suc_le_eq)

lemma negotiation_changes_nothing:
  assumes "isAuthNegotiation data = Some True"
  shows "analyzeSOCKS5Protocol ck k data srcIP dstIP srcPort dstPort m =
           Some (snd (getOrCreateSession k dstIP dstPort m))"
proof -
  from assms have l: "\<not> len data < 2"
    by (simp add: isAuthNegotiation_eq len_def)
  obtain session m1 where g: "getOrCreateSession k dstIP dstPort m = (session, m1)"
    by (cases "getOrCreateSession k dstIP dstPort m")
  obtain ms where "handleAuthNegotiation session data = Some ms"
    using handleAuthNegotiation_total by blast
  with assms l g show ?thesis
    by (simp add: analyzeSOCKS5Protocol_def)
qed

lemma connect_target_example: "connect_target connect_frame = Some (''example'', 443)"
  by (simp add: connect_target_def connect_frame_def at_def slice_def len_def be_port_def
      str_example)

lemmas scenario_defs =
  observe_def key0_def fresh_session_def ck0_def
  feed_def AnalyzePacket_def isSOCKS5Traffic_eq socksports_def accumulatePacket_eq buffered_def
  analyzeSOCKS5Protocol_def getOrCreateSession_def
  isAuthNegotiation_eq isUsernamePasswordAuth_eq isConnectRequest_eq isConnectResponse_eq
  handleAuthNegotiation_def negotiation_methods.simps at_def
  handleUsernamePasswordAuth_eq
  printSOCKS5AuthReport_def time_Sub_def Minute_def maxDuration_def minDuration_def
  store_session_def NewEnhancedSOCKS5Monitor_def Let_def len_def

lemma handleUsernamePasswordAuth_truncated:
  "length data < 2 + ulen_of data + 1 + plen_of data \<Longrightarrow>
   handleUsernamePasswordAuth ck session data m = Some (session, m)"
  by (auto simp: handleUsernamePasswordAuth_eq ulen_of_def plen_of_def)

lemma isPrintableString_nonempty: "isPrintableString s \<Longrightarrow> s \<noteq> []"
  by (auto simp: isPrintableString_def)

lemma searchAuthInData_both_or_none:
  assumes "searchAuthInData ck session data m = Some (session', m')"
    and "Username session = []"
  shows "(session' = session \<and> m' = m) \<or> (Username session' \<noteq> [] \<and> Password session' \<noteq> [])"
proof (cases "searchAuth_from data 0")
  case None
  with assms show ?thesis by (simp add: searchAuthInData_def)
next
  case (Some r)
  show ?thesis
  proof (cases r)
    case None
    with Some assms show ?thesis by (simp add: searchAuthInData_def)
  next
    case found: (Some c)
    obtain u p where c: "c = (u, p)" by (cases c)
    with Some found have "isPrintableString u \<and> isPrintableString p"
      using searchAuth_from_printable [of data 0 u p] by simp
    then have "u \<noteq> [] \<and> p \<noteq> []"
      by (simp add: isPrintableString_nonempty)
    with Some found c assms show ?thesis
      by (auto simp: searchAuthInData_def Let_def)
  qed
qed

text \<open>
  Claim C3. The claim says that the connect request 05 01 00 03 07 e x a m p l e 01 BB
  sets the session's target host to example and its target port to 443. The dispatch of
  \<open>analyzeSOCKS5Protocol\<close> tests \<open>isAuthNegotiation\<close> first, and every payload that
  \<open>isConnectRequest\<close> accepts (05 01 ...) is accepted by it as well, so
  \<open>handleConnectRequest\<close> is never reached: after the frame the session is as it was
  created, with no target host and port 0, although the parser of the handler would have
  returned host example and port 443.
\<close>

theorem connect_request_never_parsed:
  "observe (feed connect_frame (NewEnhancedSOCKS5Monitor 7)) = Some (Some fresh_session, 0) \<and>
   TargetHost fresh_session = [] \<and> TargetPort fresh_session = 0 \<and>
   isAuthNegotiation connect_frame = Some True \<and>
   connect_target connect_frame = Some (''example'', 443)"
  by (simp add: connect_target_example) (simp add: connect_frame_def scenario_defs)

text \<open>
  Claim C4. The claim says that a payload starting with 05 and a non-zero reply code sets
  the session's status to failed with that code. \<open>handleConnectResponse\<close> has that
  branch, but the dispatch calls it only when \<open>isConnectResponse\<close> holds, which requires
  the reply code to be zero, and a payload 05 followed by a non-zero byte is taken as an
  authentication negotiation before that. For the failure reply 05 01 00 01 00 00 00 00 00
  00 the session keeps the status it was created with.
\<close>

theorem failure_reply_not_recorded:
  "observe (feed failure_reply (NewEnhancedSOCKS5Monitor 7)) = Some (Some fresh_session, 0) \<and>
   Status fresh_session = Connecting \<and>
   isConnectResponse failure_reply = Some False \<and>
   handleConnectResponse fresh_session failure_reply
     = Some (fresh_session\<lparr>Status := ConnectFailed 0x01\<rparr>)"
  by (simp add: failure_reply_def scenario_defs handleConnectResponse_def)

lemma ulen64_frame_parts:
  "length ulen64_frame = 68" "ulen64_frame ! 0 = 0x01" "ulen_of ulen64_frame = 64"
  "plen_of ulen64_frame = 1" "uname_of ulen64_frame = replicate 64 0x41"
  "passwd_of ulen64_frame = [0x70]"
  by (simp_all add: ulen64_frame_def ulen_of_def plen_of_def uname_of_def passwd_of_def
      nth_append)

text \<open>
  Claim C1. The claim says that a frame whose ULEN or PLEN is 0 or at least 64 yields no
  credentials in either extractor. The capture program's extractor rejects such frames
  (\<open>extract_auth_fails_closed\<close>), and both extractors reject truncated frames, but
  \<open>handleUsernamePasswordAuth\<close> checks neither length against 0 or 64: the frame
  01 00 00 marks a new session authenticated with empty credentials and prints a report,
  and a frame starting 01 40 followed by 64 name bytes and a one-byte password marks the
  session authenticated with a 64-byte username, while the capture program produces no
  event for either.
\<close>

theorem unvalidated_lengths_accepted:
  "observe (feed [0x01, 0x00, 0x00] (NewEnhancedSOCKS5Monitor 7)) =
     Some (Some (fresh_session\<lparr>Username := [], Password := [],
                                 AuthTime := tStamp ck0, Status := AuthSucceeded\<rparr>), 1) \<and>
   observe (feed ulen64_frame (NewEnhancedSOCKS5Monitor 7)) =
     Some (Some (fresh_session\<lparr>Username := string_of_bytes (replicate 64 0x41),
                                 Password := ''p'',
                                 AuthTime := tStamp ck0, Status := AuthSucceeded\<rparr>), 1) \<and>
   extract_auth 0x700000007 5 (bob_segment\<lparr>payload := [0x01, 0x00, 0x00]\<rparr>) = None \<and>
   extract_auth 0x700000007 5 (bob_segment\<lparr>payload := ulen64_frame\<rparr>) = None"
  using ulen64_frame_parts
  by (simp add: scenario_defs extract_auth_eq str_p
      ulen_of_def plen_of_def uname_of_def passwd_of_def)

text \<open>
  Claim C8. The claim says that no reachable session has a password without a username.
  The frame 01 00 01 p (ULEN = 0, PLEN = 1) handed to a new monitor is dispatched to
  \<open>handleUsernamePasswordAuth\<close>, which does not require ULEN to be positive: the stored
  session has an empty username and the password p. The fallback scan does keep the
  invariant (\<open>searchAuthInData_both_or_none\<close>).
\<close>

theorem password_without_username:
  "observe (feed [0x01, 0x00, 0x01, 0x70] (NewEnhancedSOCKS5Monitor 7)) =
     Some (Some (fresh_session\<lparr>Username := [], Password := ''p'',
                                 AuthTime := tStamp ck0, Status := AuthSucceeded\<rparr>), 1)"
  by (simp add: scenario_defs str_p)

section \<open>The reaper, the classifiers and the report cooldown\<close>

lemma time_Sub_gt_iff:
  "d < maxDuration \<Longrightarrow> minDuration \<le> d \<Longrightarrow> d < time_Sub t u \<longleftrightarrow> d < t - u"
  by (auto simp: time_Sub_def Let_def)

lemma expired_iff: "expired now session \<longleftrightarrow> 5 * Minute < now - AuthTime session"
  unfolding expired_def
  by (rule time_Sub_gt_iff) (simp_all add: Minute_def maxDuration_def minDuration_def)

text \<open>
  What the reaper does, key by key: a session whose \<open>AuthTime\<close> is more than five
  minutes before \<open>now\<close> is removed together with its packet buffer, and a session whose
  \<open>AuthTime\<close> is at most five minutes before \<open>now\<close> is kept unchanged, with its
  buffer.
\<close>

lemma reaper_by_auth_time:
  "(authSessions m k = Some session \<and> 5 * Minute < now - AuthTime session \<longrightarrow>
      authSessions (CleanupSessions now m) k = None \<and>
      packetBuffer (CleanupSessions now m) k = None) \<and>
   (authSessions m k = Some session \<and> now - AuthTime session \<le> 5 * Minute \<longrightarrow>
      authSessions (CleanupSessions now m) k = Some session \<and>
      packetBuffer (CleanupSessions now m) k = packetBuffer m k)"
  by (simp add: CleanupSessions_def expired_iff)

lemma feed_bob_state:
  "\<exists>m. feed bob_frame (NewEnhancedSOCKS5Monitor 7) = Some m \<and>
     authSessions m key0 = Some (fresh_session\<lparr>Username := ''bob'', Password := ''xyz'',
                                   AuthTime := tStamp ck0, Status := AuthSucceeded\<rparr>) \<and>
     packetBuffer m key0 = Some bob_frame"
  by (simp add: bob_frame_def scenario_defs str_bob str_xyz)

lemma reaper_by_auth_time_example:
  "\<exists>m session. feed bob_frame (NewEnhancedSOCKS5Monitor 7) = Some m \<and>
     authSessions m key0 = Some session \<and> AuthTime session = tStamp ck0 \<and>
     packetBuffer m key0 = Some bob_frame \<and>
     authSessions (CleanupSessions (tStamp ck0 + 6 * Minute) m) key0 = None \<and>
     packetBuffer (CleanupSessions (tStamp ck0 + 6 * Minute) m) key0 = None \<and>
     authSessions (CleanupSessions (tStamp ck0 + 4 * Minute) m) key0 = Some session \<and>
     packetBuffer (CleanupSessions (tStamp ck0 + 4 * Minute) m) key0 = Some bob_frame"
proof -
  let ?s = "fresh_session\<lparr>Username := ''bob'', Password := ''xyz'',
                           AuthTime := tStamp ck0, Status := AuthSucceeded\<rparr>"
  from feed_bob_state obtain m where
    m: "feed bob_frame (NewEnhancedSOCKS5Monitor 7) = Some m"
       "authSessions m key0 = Some ?s" "packetBuffer m key0 = Some bob_frame"
    by blast
  have a: "AuthTime ?s = tStamp ck0" by simp
  have old: "5 * Minute < tStamp ck0 + 6 * Minute - AuthTime ?s"
    and young: "tStamp ck0 + 4 * Minute - AuthTime ?s \<le> 5 * Minute"
    by (simp_all add: Minute_def)
  from reaper_by_auth_time [of m key0 ?s "tStamp ck0 + 6 * Minute"]
       reaper_by_auth_time [of m key0 ?s "tStamp ck0 + 4 * Minute"] m old young a
  show ?thesis by (intro exI [of _ m] exI [of _ ?s]) simp
qed

text \<open>
  Claim C5. The claim says that a session younger than the five-minute window is retained
  by the reaper, the age of a session that was never authenticated being counted from its
  creation. The session record has no creation time and \<open>CleanupSessions\<close> compares
  \<open>now\<close> with \<open>AuthTime\<close> only, which is the zero Time until the session is
  authenticated: a negotiation frame creates the session of the connection, and a run of
  the reaper one second later removes the session and its buffer.
\<close>

theorem reaper_removes_new_session:
  "observe (feed [0x05, 0x01, 0x00] (NewEnhancedSOCKS5Monitor 7)) = Some (Some fresh_session, 0) \<and>
   AuthTime fresh_session = 0 \<and>
   map_option (\<lambda>m. (authSessions m key0, packetBuffer m key0))
     (run [Packet ck0 [0x05, 0x01, 0x00] ''10.0.0.2'' ''10.0.0.1'' 40000 1080,
           Cleanup (tSet ck0 + 1000000000)] (NewEnhancedSOCKS5Monitor 7))
     = Some (None, None)"
  by (simp add: scenario_defs CleanupSessions_def expired_def)

text \<open>
  Claim C9 as stated fails for the user-space test \<open>isSOCKS5Traffic\<close>: it accepts the
  one-byte payload 01 addressed to port 9999, which is in no port list.
\<close>

theorem prefilter_accepts_one_byte:
  "isSOCKS5Traffic [0x01] 9999 = Some True \<and> length [0x01 :: byte] < 3 \<and>
   (9999 :: uint16) \<notin> set socksports"
  by (simp add: isSOCKS5Traffic_eq socksports_def)

text \<open>
  Claim C9, as amended. The capture program passes a frame on to the protocol analysis
  only if its destination port is one of 1080, 1081, 7890, 7891, 8080 and 8081 and its
  TCP payload has at least 3 bytes, and it produces an event only for such a frame. The
  user-space test \<open>isSOCKS5Traffic\<close> accepts a fragment exactly when its destination
  port is one of 1080, 1081, 7890, 7891, 8080, 8081, 9050 and 9051, or it has at least two
  bytes and starts with 05, or it has at least one byte and starts with 01.
\<close>

theorem classifier_port_and_length:
  "(classify frame = Inr seg \<longrightarrow>
      dest seg \<in> {1080, 1081, 7890, 7891, 8080, 8081} \<and> 3 \<le> length (payload seg)) \<and>
   (container_traffic_monitor pid_tgid ktime frame \<noteq> None \<longrightarrow> (\<exists>seg. classify frame = Inr seg)) \<and>
   isSOCKS5Traffic data dstPort =
     Some (dstPort \<in> {1080, 1081, 7890, 7891, 8080, 8081, 9050, 9051}
           \<or> (2 \<le> length data \<and> data ! 0 = 0x05)
           \<or> (1 \<le> length data \<and> data ! 0 = 0x01))"
  using classify_matching [of frame seg]
  by (auto simp: container_traffic_monitor_def isSOCKS5Traffic_eq socksports_def
      split: sum.splits)

theorem classifier_port_and_length_witness:
  "classify bob_packet = Inr bob_segment \<and> dest bob_segment = 1080 \<and>
   length (payload bob_segment) = 9 \<and>
   container_traffic_monitor 0x700000007 5 bob_packet \<noteq> None \<and>
   isSOCKS5Traffic bob_frame 1080 = Some True"
  using classifier_port_and_length [of bob_packet bob_segment "0x700000007" 5 bob_frame 1080]
    extract_auth_valid [of bob_segment "0x700000007" 5] valid_bob_frame
  by (auto simp: classify_bob_packet container_traffic_monitor_def bob_segment_def bob_frame_def)

lemma spaced_append:
  "spaced (ts @ [t]) \<longleftrightarrow> spaced ts \<and> list_all (\<lambda>u. Minute \<le> t - u) ts"
  by (induction ts) auto

lemma time_Sub_not_less:
  "\<not> time_Sub a b < 1 * Minute \<Longrightarrow> Minute \<le> a - b"
  by (auto simp: time_Sub_def Let_def Minute_def maxDuration_def minDuration_def
      split: if_splits)

lemma report_inv_print:
  assumes "tCheck ck \<le> tSet ck" and "report_inv m"
  shows "report_inv (printSOCKS5AuthReport ck session m)"
proof (cases "time_Sub (tCheck ck) (lastAuthReport m) < 1 * Minute")
  case True
  with assms show ?thesis by (simp add: printSOCKS5AuthReport_def)
next
  case False
  then have gap: "Minute \<le> tCheck ck - lastAuthReport m"
    by (rule time_Sub_not_less)
  from assms(2) have old: "list_all (\<lambda>r. emitted_at r \<le> lastAuthReport m) (printed m)"
    and sp: "spaced (map emitted_at (printed m))"
    by (simp_all add: report_inv_def)
  from old gap assms(1) have a: "list_all (\<lambda>r. emitted_at r \<le> tSet ck) (printed m)"
    by (auto simp: list_all_iff Minute_def)
  from old gap assms(1) have b: "list_all (\<lambda>u. Minute \<le> tSet ck - u) (map emitted_at (printed m))"
    by (auto simp: list_all_iff)
  from False a b sp show ?thesis
    by (simp add: printSOCKS5AuthReport_def report_inv_def spaced_append)
qed

lemma report_inv_handleUsernamePasswordAuth:
  "tCheck ck \<le> tSet ck \<Longrightarrow> report_inv m \<Longrightarrow>
   handleUsernamePasswordAuth ck session data m = Some (session', m') \<Longrightarrow> report_inv m'"
  by (auto simp: handleUsernamePasswordAuth_eq Let_def report_inv_print split: if_splits)

lemma report_inv_handleConnectRequest:
  "tCheck ck \<le> tSet ck \<Longrightarrow> report_inv m \<Longrightarrow>
   handleConnectRequest ck session data m = Some (session', m') \<Longrightarrow> report_inv m'"
  by (auto simp: handleConnectRequest_def Let_def report_inv_print
      split: if_splits Option.bind_splits prod.splits)

lemma report_inv_searchAuthInData:
  "tCheck ck \<le> tSet ck \<Longrightarrow> report_inv m \<Longrightarrow>
   searchAuthInData ck session data m = Some (session', m') \<Longrightarrow> report_inv m'"
  by (auto simp: searchAuthInData_def Let_def report_inv_print
      split: if_splits option.splits prod.splits)

lemma report_inv_store_session:
  "report_inv (store_session k (session, m)) = report_inv m"
  by (simp add: store_session_def report_inv_def)

lemma report_inv_getOrCreateSession:
  "getOrCreateSession k ip port m = (session, m1) \<Longrightarrow> report_inv m1 = report_inv m"
  by (auto simp: getOrCreateSession_def report_inv_def Let_def split: option.splits)

lemma report_inv_analyzeSOCKS5Protocol:
  assumes "tCheck ck \<le> tSet ck" and "report_inv m"
    and "analyzeSOCKS5Protocol ck k data srcIP dstIP srcPort dstPort m = Some m'"
  shows "report_inv m'"
proof -
  obtain session m1 where g: "getOrCreateSession k dstIP dstPort m = (session, m1)"
    by (cases "getOrCreateSession k dstIP dstPort m")
  with assms(2) have i1: "report_inv m1"
    by (simp add: report_inv_getOrCreateSession)
  from assms(3) g show ?thesis
    using report_inv_handleUsernamePasswordAuth [OF assms(1) i1]
      report_inv_handleConnectRequest [OF assms(1) i1]
      report_inv_searchAuthInData [OF assms(1) i1] i1 assms(2)
    by (auto simp: analyzeSOCKS5Protocol_def isAuthNegotiation_eq isUsernamePasswordAuth_eq
        isConnectRequest_eq isConnectResponse_eq report_inv_store_session
        split: if_splits Option.bind_splits)
qed

lemma report_inv_AnalyzePacket:
  assumes "tCheck ck \<le> tSet ck" and "report_inv m"
    and "AnalyzePacket ck data srcIP dstIP srcPort dstPort m = Some m'"
  shows "report_inv m'"
proof (cases "isSOCKS5Traffic data dstPort = Some True")
  case False
  with assms show ?thesis
    by (auto simp: AnalyzePacket_def isSOCKS5Traffic_eq Let_def)
next
  case True
  let ?k = "sessionKey_of srcIP srcPort dstIP dstPort"
  let ?m1 = "m\<lparr>packetBuffer := (packetBuffer m)(?k \<mapsto> take 4096 (buffered m ?k @ data))\<rparr>"
  have i1: "report_inv ?m1"
    using assms(2) by (simp add: report_inv_def)
  from True assms(3) have "analyzeSOCKS5Protocol ck ?k (take 4096 (buffered m ?k @ data))
      srcIP dstIP srcPort dstPort ?m1 = Some m'"
    by (simp add: AnalyzePacket_def accumulatePacket_eq Let_def)
  with assms(1) i1 show ?thesis
    by (rule report_inv_analyzeSOCKS5Protocol)
qed

lemma report_inv_run:
  "list_all ordered_readings evs \<Longrightarrow> report_inv m \<Longrightarrow> run evs m = Some m' \<Longrightarrow> report_inv m'"
proof (induction evs arbitrary: m)
  case Nil
  then show ?case by simp
next
  case (Cons e es)
  from Cons.prems obtain m1 where s: "step e m = Some m1" and r: "run es m1 = Some m'"
    by (auto split: option.splits)
  have "report_inv m1"
  proof (cases e)
    case (Packet ck data srcIP dstIP srcPort dstPort)
    with Cons.prems s show ?thesis
      by (auto intro: report_inv_AnalyzePacket)
  next
    case (Cleanup now)
    with Cons.prems s show ?thesis
      by (auto simp: CleanupSessions_def report_inv_def)
  qed
  with Cons.IH [of m1] Cons.prems r show ?case by simp
qed

lemma report_inv_new: "report_inv (NewEnhancedSOCKS5Monitor target)"
  by (simp add: report_inv_def NewEnhancedSOCKS5Monitor_def)

lemma store_of_print [simp]: "store_of (printSOCKS5AuthReport ck s m) = store_of m"
  by (simp add: store_of_def printSOCKS5AuthReport_def)

lemma print_in_cooldown:
  "time_Sub (tCheck ck) (lastAuthReport m) < 1 * Minute \<Longrightarrow> printSOCKS5AuthReport ck s m = m"
  by (simp add: printSOCKS5AuthReport_def)

lemma handleConnectRequest_eq:
  "handleConnectRequest ck session data m =
     (if length data < 4 then Some (session, m)
      else case connect_target data of
             None \<Rightarrow> None
           | Some (h, p) \<Rightarrow>
               if h \<noteq> [] then
                 (let session' = session\<lparr>TargetHost := h, TargetPort := p,
                                          ConnectTime := tStamp ck\<rparr>
                  in if Username session \<noteq> []
                     then Some (session', printSOCKS5AuthReport ck session' m)
                     else Some (session', m))
               else Some (session, m))"
  by (auto simp: handleConnectRequest_def at_def len_def Let_def split: option.splits)

text \<open>Each handler: the session it returns does not depend on the monitor, and the
  monitor it returns has the store of the one it was given.\<close>

lemma handleUsernamePasswordAuth_session:
  "map_option fst (handleUsernamePasswordAuth ck session data m)
     = map_option fst (handleUsernamePasswordAuth ck session data m2)"
  by (simp add: handleUsernamePasswordAuth_eq Let_def)

lemma handleUsernamePasswordAuth_store:
  "handleUsernamePasswordAuth ck session data m = Some (s', m') \<Longrightarrow> store_of m' = store_of m"
  by (auto simp: handleUsernamePasswordAuth_eq Let_def split: if_splits)

lemma handleUsernamePasswordAuth_cooldown:
  "time_Sub (tCheck ck) (lastAuthReport m) < 1 * Minute \<Longrightarrow>
   handleUsernamePasswordAuth ck session data m = Some (s', m') \<Longrightarrow> m' = m"
  by (auto simp: handleUsernamePasswordAuth_eq Let_def print_in_cooldown split: if_splits)

lemma handleConnectRequest_session:
  "map_option fst (handleConnectRequest ck session data m)
     = map_option fst (handleConnectRequest ck session data m2)"
  by (simp add: handleConnectRequest_eq Let_def split: option.splits)

lemma handleConnectRequest_store:
  "handleConnectRequest ck session data m = Some (s', m') \<Longrightarrow> store_of m' = store_of m"
  by (auto simp: handleConnectRequest_eq Let_def split: if_splits option.splits)

lemma handleConnectRequest_cooldown:
  "time_Sub (tCheck ck) (lastAuthReport m) < 1 * Minute \<Longrightarrow>
   handleConnectRequest ck session data m = Some (s', m') \<Longrightarrow> m' = m"
  by (auto simp: handleConnectRequest_eq Let_def print_in_cooldown split: if_splits option.splits)

lemma searchAuthInData_session:
  "map_option fst (searchAuthInData ck session data m)
     = map_option fst (searchAuthInData ck session data m2)"
  by (simp add: searchAuthInData_def Let_def split: option.splits)

lemma searchAuthInData_store:
  "searchAuthInData ck session data m = Some (s', m') \<Longrightarrow> store_of m' = store_of m"
  by (auto simp: searchAuthInData_def Let_def split: if_splits option.splits)

lemma searchAuthInData_cooldown:
  "time_Sub (tCheck ck) (lastAuthReport m) < 1 * Minute \<Longrightarrow>
   searchAuthInData ck session data m = Some (s', m') \<Longrightarrow> m' = m"
  by (auto simp: searchAuthInData_def Let_def print_in_cooldown split: if_splits option.splits)

lemma stored_independent:
  assumes "map_option fst r1 = map_option fst r2"
    and "\<And>s' m'. r1 = Some (s', m') \<Longrightarrow> store_of m' = st"
    and "\<And>s' m'. r2 = Some (s', m') \<Longrightarrow> store_of m' = st"
  shows "map_option (\<lambda>r. store_of (store_session k r)) r1
           = map_option (\<lambda>r. store_of (store_session k r)) r2"
proof (cases r1)
  case None
  with assms(1) show ?thesis by simp
next
  case (Some a)
  with assms(1) obtain b where b: "r2 = Some b" "fst a = fst b"
    by (cases r2) auto
  from Some assms(2) [of "fst a" "snd a"] have "store_of (snd a) = st" by simp
  moreover from b assms(3) [of "fst b" "snd b"] have "store_of (snd b) = st" by simp
  ultimately show ?thesis
    using Some b by (auto simp: store_of_def store_session_def)
qed

lemma getOrCreateSession_report_state:
  "getOrCreateSession k ip port (m\<lparr>lastAuthReport := t, printed := ps\<rparr>) =
     (fst (getOrCreateSession k ip port m),
      (snd (getOrCreateSession k ip port m))\<lparr>lastAuthReport := t, printed := ps\<rparr>)"
  by (simp add: getOrCreateSession_def Let_def split: option.splits)

lemma store_of_report_state [simp]: "store_of (m\<lparr>lastAuthReport := t, printed := ps\<rparr>) = store_of m"
  by (simp add: store_of_def)

lemma analyzeSOCKS5Protocol_store_independent:
  "map_option store_of
     (analyzeSOCKS5Protocol ck k data srcIP dstIP srcPort dstPort (m\<lparr>lastAuthReport := t, printed := ps\<rparr>))
   = map_option store_of (analyzeSOCKS5Protocol ck k data srcIP dstIP srcPort dstPort m)"
proof -
  obtain session m1 where g: "getOrCreateSession k dstIP dstPort m = (session, m1)"
    by (cases "getOrCreateSession k dstIP dstPort m")
  let ?m2 = "m1\<lparr>lastAuthReport := t, printed := ps\<rparr>"
  have g2: "getOrCreateSession k dstIP dstPort (m\<lparr>lastAuthReport := t, printed := ps\<rparr>) = (session, ?m2)"
    by (simp add: getOrCreateSession_report_state g)
  obtain ms where n: "handleAuthNegotiation session data = Some ms"
    using handleAuthNegotiation_total by blast
  obtain r where c: "handleConnectResponse session data = Some r"
    using handleConnectResponse_total by blast
  have a: "map_option (\<lambda>r. store_of (store_session k r)) (handleUsernamePasswordAuth ck session data ?m2)
         = map_option (\<lambda>r. store_of (store_session k r)) (handleUsernamePasswordAuth ck session data m1)"
    by (rule stored_independent [where st = "store_of m1"])
       (simp_all add: handleUsernamePasswordAuth_session [of ck session data ?m2 m1]
          handleUsernamePasswordAuth_store [of ck session data ?m2]
          handleUsernamePasswordAuth_store [of ck session data m1])
  have b: "map_option (\<lambda>r. store_of (store_session k r)) (handleConnectRequest ck session data ?m2)
         = map_option (\<lambda>r. store_of (store_session k r)) (handleConnectRequest ck session data m1)"
    by (rule stored_independent [where st = "store_of m1"])
       (simp_all add: handleConnectRequest_session [of ck session data ?m2 m1]
          handleConnectRequest_store [of ck session data ?m2]
          handleConnectRequest_store [of ck session data m1])
  have d: "map_option (\<lambda>r. store_of (store_session k r)) (searchAuthInData ck session data ?m2)
         = map_option (\<lambda>r. store_of (store_session k r)) (searchAuthInData ck session data m1)"
    by (rule stored_independent [where st = "store_of m1"])
       (simp_all add: searchAuthInData_session [of ck session data ?m2 m1]
          searchAuthInData_store [of ck session data ?m2]
          searchAuthInData_store [of ck session data m1])
  have e: "store_of (store_session k (r, ?m2)) = store_of (store_session k (r, m1))"
    by (simp add: store_of_def store_session_def)
  from g g2 n c a b d e show ?thesis
    by (simp add: analyzeSOCKS5Protocol_def isAuthNegotiation_eq isUsernamePasswordAuth_eq
        isConnectRequest_eq isConnectResponse_eq option.map_comp comp_def)
qed

lemma AnalyzePacket_unfold:
  "AnalyzePacket ck data srcIP dstIP srcPort dstPort m =
     (if isSOCKS5Traffic data dstPort = Some True
      then analyzeSOCKS5Protocol ck (sessionKey_of srcIP srcPort dstIP dstPort)
             (take 4096 (buffered m (sessionKey_of srcIP srcPort dstIP dstPort) @ data))
             srcIP dstIP srcPort dstPort
             (m\<lparr>packetBuffer := (packetBuffer m)(sessionKey_of srcIP srcPort dstIP dstPort
                  \<mapsto> take 4096 (buffered m (sessionKey_of srcIP srcPort dstIP dstPort) @ data))\<rparr>)
      else Some m)"
  by (simp add: AnalyzePacket_def isSOCKS5Traffic_eq accumulatePacket_eq Let_def del: take_append)

lemma AnalyzePacket_store_independent:
  "map_option store_of
     (AnalyzePacket ck data srcIP dstIP srcPort dstPort (m\<lparr>lastAuthReport := t, printed := ps\<rparr>))
   = map_option store_of (AnalyzePacket ck data srcIP dstIP srcPort dstPort m)"
proof -
  let ?k = "sessionKey_of srcIP srcPort dstIP dstPort"
  let ?buf = "take 4096 (buffered m ?k @ data)"
  let ?m1 = "m\<lparr>packetBuffer := (packetBuffer m)(?k \<mapsto> ?buf)\<rparr>"
  let ?m' = "m\<lparr>lastAuthReport := t, printed := ps\<rparr>"
  have bf: "buffered ?m' ?k = buffered m ?k"
    by (simp add: buffered_def)
  have sw: "?m'\<lparr>packetBuffer := (packetBuffer ?m')(?k \<mapsto> ?buf)\<rparr>
              = ?m1\<lparr>lastAuthReport := t, printed := ps\<rparr>"
    by simp
  show ?thesis
    unfolding AnalyzePacket_unfold [of ck data srcIP dstIP srcPort dstPort ?m']
      AnalyzePacket_unfold [of ck data srcIP dstIP srcPort dstPort m] bf sw
    using analyzeSOCKS5Protocol_store_independent
      [where ck = ck and k = ?k and data = ?buf and srcIP = srcIP
         and dstIP = dstIP and srcPort = srcPort and dstPort = dstPort and m = ?m1
         and t = t and ps = ps]
    by simp
qed

lemma analyzeSOCKS5Protocol_cooldown:
  assumes "time_Sub (tCheck ck) (lastAuthReport m) < 1 * Minute"
    and "analyzeSOCKS5Protocol ck k data srcIP dstIP srcPort dstPort m = Some m'"
  shows "report_state m' = report_state m"
proof -
  obtain session m1 where g: "getOrCreateSession k dstIP dstPort m = (session, m1)"
    by (cases "getOrCreateSession k dstIP dstPort m")
  then have r1: "report_state m1 = report_state m"
    by (auto simp: getOrCreateSession_def report_state_def Let_def split: option.splits)
  with assms(1) have c1: "time_Sub (tCheck ck) (lastAuthReport m1) < 1 * Minute"
    by (simp add: report_state_def)
  from assms(2) g r1 show ?thesis
    using handleUsernamePasswordAuth_cooldown [OF c1, of session data]
      handleConnectRequest_cooldown [OF c1, of session data]
      searchAuthInData_cooldown [OF c1, of session data]
    by (auto simp: analyzeSOCKS5Protocol_def isAuthNegotiation_eq isUsernamePasswordAuth_eq
        isConnectRequest_eq isConnectResponse_eq store_session_def report_state_def
        split: if_splits Option.bind_splits)
qed

lemma AnalyzePacket_cooldown:
  assumes "time_Sub (tCheck ck) (lastAuthReport m) < 1 * Minute"
    and "AnalyzePacket ck data srcIP dstIP srcPort dstPort m = Some m'"
  shows "report_state m' = report_state m"
proof (cases "isSOCKS5Traffic data dstPort = Some True")
  case False
  with assms show ?thesis
    by (auto simp: AnalyzePacket_def isSOCKS5Traffic_eq Let_def)
next
  case True
  let ?k = "sessionKey_of srcIP srcPort dstIP dstPort"
  let ?m1 = "m\<lparr>packetBuffer := (packetBuffer m)(?k \<mapsto> take 4096 (buffered m ?k @ data))\<rparr>"
  from assms(1) have c1: "time_Sub (tCheck ck) (lastAuthReport ?m1) < 1 * Minute"
    by simp
  from True assms(2) have "analyzeSOCKS5Protocol ck ?k (take 4096 (buffered m ?k @ data))
      srcIP dstIP srcPort dstPort ?m1 = Some m'"
    by (simp add: AnalyzePacket_def accumulatePacket_eq Let_def)
  with c1 have "report_state m' = report_state ?m1"
    by (rule analyzeSOCKS5Protocol_cooldown)
  then show ?thesis by (simp add: report_state_def)
qed

lemma searchAuthInData_found_cooldown:
  assumes "time_Sub (tCheck ck) (lastAuthReport m) < 1 * Minute"
    and "Username session = []" and "searchAuth_from data 0 = Some (Some (u, p))"
  shows "searchAuthInData ck session data m =
           Some (session\<lparr>Username := u, Password := p, AuthTime := tStamp ck,
                          Status := AuthExtracted\<rparr>, m)"
  using assms by (simp add: searchAuthInData_def Let_def print_in_cooldown)

lemma handleConnectRequest_parsed_cooldown:
  assumes "time_Sub (tCheck ck) (lastAuthReport m) < 1 * Minute"
    and "4 \<le> length data" and "connect_target data = Some (h, port)" and "h \<noteq> []"
  shows "handleConnectRequest ck session data m =
           Some (session\<lparr>TargetHost := h, TargetPort := port, ConnectTime := tStamp ck\<rparr>, m)"
  using assms by (simp add: handleConnectRequest_eq Let_def print_in_cooldown)

lemma searchAuth_from_scan_frame:
  "searchAuth_from scan_frame 0 = Some (Some (''bob'', ''xyz''))"
  by (simp add: scan_frame_def bob_frame_def searchAuth_from.simps searchAuth_at_def at_def
      slice_def len_def Let_def isPrintableString_def str_bob str_xyz)

text \<open>
  Claim C6. For every sequence of fragments and reaper runs of one monitor in which the
  clock does not go back between the cooldown test and the assignment to
  \<open>lastAuthReport\<close>, the run finishes and any two reports printed are at least one
  minute apart, whatever sessions they belong to. During the cooldown every path that
  qualifies a session for a report still updates it and prints nothing: a valid
  username/password frame stores the credentials, the timestamp and the authenticated
  status; credentials found by the fallback scan are stored with the timestamp and the
  status of the scan; a parsed connect request stores the target and its timestamp; each
  leaves the monitor as it was. For any fragment handed to \<open>AnalyzePacket\<close> during the
  cooldown, the report state is unchanged and the store afterwards is the store the same
  call produces from any other report state, in particular from one outside the cooldown.
\<close>

theorem reports_rate_limited:
  assumes "list_all ordered_readings evs"
    and "valid_auth_frame data"
    and "time_Sub (tCheck ck) (lastAuthReport m) < 1 * Minute"
  shows "(\<exists>m'. run evs (NewEnhancedSOCKS5Monitor target) = Some m' \<and>
            spaced (map emitted_at (printed m'))) \<and>
         handleUsernamePasswordAuth ck session data m =
           Some (session\<lparr>Username := string_of_bytes (uname_of data),
                          Password := string_of_bytes (passwd_of data),
                          AuthTime := tStamp ck, Status := AuthSucceeded\<rparr>, m) \<and>
         (Username session = [] \<and> searchAuth_from scan 0 = Some (Some (u, p)) \<longrightarrow>
            searchAuthInData ck session scan m =
              Some (session\<lparr>Username := u, Password := p, AuthTime := tStamp ck,
                             Status := AuthExtracted\<rparr>, m)) \<and>
         (4 \<le> length req \<and> connect_target req = Some (h, port) \<and> h \<noteq> [] \<longrightarrow>
            handleConnectRequest ck session req m =
              Some (session\<lparr>TargetHost := h, TargetPort := port,
                             ConnectTime := tStamp ck\<rparr>, m)) \<and>
         (\<exists>m'. AnalyzePacket ck frag srcIP dstIP srcPort dstPort m = Some m' \<and>
            report_state m' = report_state m \<and>
            Some (store_of m') =
              map_option store_of
                (AnalyzePacket ck frag srcIP dstIP srcPort dstPort
                   (m\<lparr>lastAuthReport := t, printed := ps\<rparr>)))"
proof -
  obtain m' where r: "run evs (NewEnhancedSOCKS5Monitor target) = Some m'"
    using run_total by blast
  with assms(1) report_inv_new have "report_inv m'"
    by (rule report_inv_run)
  with r have rate: "\<exists>m'. run evs (NewEnhancedSOCKS5Monitor target) = Some m' \<and>
      spaced (map emitted_at (printed m'))"
    by (simp add: report_inv_def)
  from assms(2,3) have auth: "handleUsernamePasswordAuth ck session data m =
      Some (session\<lparr>Username := string_of_bytes (uname_of data),
                     Password := string_of_bytes (passwd_of data),
                     AuthTime := tStamp ck, Status := AuthSucceeded\<rparr>, m)"
    by (simp add: handleUsernamePasswordAuth_valid print_in_cooldown)
  obtain m2 where a: "AnalyzePacket ck frag srcIP dstIP srcPort dstPort m = Some m2"
    using AnalyzePacket_total by blast
  from assms(3) a have quiet: "report_state m2 = report_state m"
    by (rule AnalyzePacket_cooldown)
  from a have indep: "Some (store_of m2) =
      map_option store_of
        (AnalyzePacket ck frag srcIP dstIP srcPort dstPort (m\<lparr>lastAuthReport := t, printed := ps\<rparr>))"
    using AnalyzePacket_store_independent
      [where ck = ck and data = frag and srcIP = srcIP and dstIP = dstIP and srcPort = srcPort
         and dstPort = dstPort and m = m and t = t and ps = ps]
    by auto
  from rate auth a quiet indep show ?thesis
    using searchAuthInData_found_cooldown [OF assms(3), of session scan u p]
      handleConnectRequest_parsed_cooldown [OF assms(3), of req h port session]
    by simp
qed

lemma two_sessions_run:
  "map_option (\<lambda>m. (map emitted_at (printed m), map_option Username (authSessions m key1),
                    map_option Password (authSessions m key1),
                    map_option Status (authSessions m key1)))
     (run two_sessions (NewEnhancedSOCKS5Monitor 7))
   = Some ([tSet ck0], Some ''bob'', Some ''xyz'', Some AuthSucceeded)"
  by (simp add: two_sessions_def key1_def ck1_def bob_frame_def scenario_defs sessionKey_of_def
      str_bob str_xyz)

lemma two_sessions_scan_run:
  "map_option (\<lambda>m. (map emitted_at (printed m), map_option Username (authSessions m key1),
                    map_option Password (authSessions m key1),
                    map_option Status (authSessions m key1)))
     (run two_sessions_scan (NewEnhancedSOCKS5Monitor 7))
   = Some ([tSet ck0], Some ''bob'', Some ''xyz'', Some AuthExtracted)"
  by (simp add: two_sessions_scan_def key1_def ck1_def scan_frame_def bob_frame_def
      scenario_defs sessionKey_of_def searchAuthInData_def searchAuth_from.simps
      searchAuth_at_def slice_def isPrintableString_def str_bob str_xyz)

theorem reports_rate_limited_witness:
  "list_all ordered_readings two_sessions \<and> valid_auth_frame bob_frame \<and>
   time_Sub (tCheck ck1) (lastAuthReport in_cooldown) < 1 * Minute \<and>
   (\<exists>m'. run two_sessions (NewEnhancedSOCKS5Monitor 7) = Some m' \<and>
      spaced (map emitted_at (printed m')) \<and>
      map emitted_at (printed m') = [tSet ck0] \<and>
      map_option Username (authSessions m' key1) = Some ''bob'' \<and>
      map_option Status (authSessions m' key1) = Some AuthSucceeded) \<and>
   handleUsernamePasswordAuth ck1 fresh_session bob_frame in_cooldown =
     Some (fresh_session\<lparr>Username := ''bob'', Password := ''xyz'',
                          AuthTime := tStamp ck1, Status := AuthSucceeded\<rparr>, in_cooldown) \<and>
   Username fresh_session = [] \<and>
   searchAuth_from scan_frame 0 = Some (Some (''bob'', ''xyz'')) \<and>
   searchAuthInData ck1 fresh_session scan_frame in_cooldown =
     Some (fresh_session\<lparr>Username := ''bob'', Password := ''xyz'',
                          AuthTime := tStamp ck1, Status := AuthExtracted\<rparr>, in_cooldown) \<and>
   4 \<le> length connect_frame \<and> connect_target connect_frame = Some (''example'', 443) \<and>
   handleConnectRequest ck1 fresh_session connect_frame in_cooldown =
     Some (fresh_session\<lparr>TargetHost := ''example'', TargetPort := 443,
                          ConnectTime := tStamp ck1\<rparr>, in_cooldown) \<and>
   map_option (\<lambda>m. (map emitted_at (printed m), map_option Username (authSessions m key1),
                    map_option Password (authSessions m key1),
                    map_option Status (authSessions m key1)))
     (run two_sessions_scan (NewEnhancedSOCKS5Monitor 7))
     = Some ([tSet ck0], Some ''bob'', Some ''xyz'', Some AuthExtracted) \<and>
   (\<exists>m'. AnalyzePacket ck1 scan_frame ''10.0.0.3'' ''10.0.0.1'' 40001 1080 in_cooldown = Some m' \<and>
      report_state m' = report_state in_cooldown \<and>
      Some (store_of m') =
        map_option store_of
          (AnalyzePacket ck1 scan_frame ''10.0.0.3'' ''10.0.0.1'' 40001 1080
             (NewEnhancedSOCKS5Monitor 7)))"
proof -
  have o: "list_all ordered_readings two_sessions"
    by (simp add: two_sessions_def ck0_def ck1_def)
  have c: "time_Sub (tCheck ck1) (lastAuthReport in_cooldown) < 1 * Minute"
    by (simp add: in_cooldown_def ck0_def ck1_def time_Sub_def Minute_def maxDuration_def
        minDuration_def NewEnhancedSOCKS5Monitor_def)
  have f: "string_of_bytes (uname_of bob_frame) = ''bob''"
    "string_of_bytes (passwd_of bob_frame) = ''xyz''"
    by (simp_all add: frame_defs bob_frame_def str_bob str_xyz)
  have e: "Username fresh_session = []" "4 \<le> length connect_frame" "''example'' \<noteq> []"
    by (simp_all add: fresh_session_def getOrCreateSession_def NewEnhancedSOCKS5Monitor_def
        connect_frame_def Let_def)
  have n: "in_cooldown\<lparr>lastAuthReport := 0, printed := []\<rparr> = NewEnhancedSOCKS5Monitor 7"
    by (simp add: in_cooldown_def NewEnhancedSOCKS5Monitor_def)
  from reports_rate_limited [OF o valid_bob_frame c,
      where target = 7 and session = fresh_session and scan = scan_frame and u = "''bob''"
        and p = "''xyz''" and req = connect_frame and h = "''example''" and port = 443
        and frag = scan_frame and srcIP = "''10.0.0.3''" and dstIP = "''10.0.0.1''"
        and srcPort = 40001 and dstPort = 1080 and t = 0 and ps = "[]"]
    two_sessions_run two_sessions_scan_run c searchAuth_from_scan_frame connect_target_example
  show ?thesis
    by (auto simp: o f e n valid_bob_frame)
qed

section \<open>No operation of the engine panics\<close>

lemma connect_target_short_ipv4:
  "4 \<le> length data \<Longrightarrow> data ! 3 = 0x01 \<Longrightarrow> length data < 10 \<Longrightarrow>
   connect_target data = Some ([], 0)"
  by (simp add: connect_target_def at_def len_def)

lemma connect_target_short_domain:
  assumes "4 \<le> length data" and "data ! 3 = 0x03"
    and "length data < 5 + unat (data ! 4) + 2"
  shows "connect_target data = Some ([], 0)"
proof (cases "length data < 5")
  case True
  with assms show ?thesis
    by (simp add: connect_target_def at_def len_def)
next
  case False
  with assms(3) have "\<not> len data \<ge> 5 + uint (data ! 4) + 2"
    unfolding len_def uint_nat by linarith
  with False assms(1,2) show ?thesis
    by (simp add: connect_target_def at_def len_def Let_def)
qed

lemma handleConnectRequest_truncated:
  assumes "length data < 4 \<or> (data ! 3 = 0x01 \<and> length data < 10)
           \<or> (data ! 3 = 0x03 \<and> length data < 5 + unat (data ! 4) + 2)"
  shows "handleConnectRequest ck session data m = Some (session, m)"
proof (cases "length data < 4")
  case True
  then show ?thesis by (simp add: handleConnectRequest_def len_def)
next
  case False
  with assms have "connect_target data = Some ([], 0)"
    using connect_target_short_ipv4 [of data] connect_target_short_domain [of data] by auto
  with False show ?thesis
    by (simp add: handleConnectRequest_def len_def at_def)
qed

lemma searchAuthInData_short:
  "length data \<le> 3 \<Longrightarrow> searchAuthInData ck session data m = Some (session, m)"
  by (subst searchAuthInData_def, subst searchAuth_from.simps) (simp add: len_def)

text \<open>
  Whatever the payload, the session and the monitor, no operation of the reconstruction
  engine panics: the stage tests, the handlers, the fallback scan, the buffer append, the
  dispatch and \<open>AnalyzePacket\<close> itself all return a value, so every index and every
  slice bound they compute is in range. On a truncated input the extracting handlers do
  nothing: a username/password frame shorter than its length bytes announce, a connect
  request cut before the end of its address and port, and a window of at most three bytes
  given to the fallback scan all leave the session and the monitor as they were.
\<close>

lemma engine_never_panics:
  "(\<exists>b. isAuthNegotiation data = Some b) \<and>
   (\<exists>b. isUsernamePasswordAuth data = Some b) \<and>
   (\<exists>b. isConnectRequest data = Some b) \<and>
   (\<exists>b. isConnectResponse data = Some b) \<and>
   (\<exists>b. isSOCKS5Traffic data dstPort = Some b) \<and>
   (\<exists>ms. handleAuthNegotiation session data = Some ms) \<and>
   (\<exists>r. handleUsernamePasswordAuth ck session data m = Some r) \<and>
   (\<exists>r. handleConnectRequest ck session data m = Some r) \<and>
   (\<exists>r. handleConnectResponse session data = Some r) \<and>
   (\<exists>r. searchAuthInData ck session data m = Some r) \<and>
   (\<exists>m'. accumulatePacket k data m = Some m') \<and>
   (\<exists>m'. analyzeSOCKS5Protocol ck k data srcIP dstIP srcPort dstPort m = Some m') \<and>
   (\<exists>m'. AnalyzePacket ck data srcIP dstIP srcPort dstPort m = Some m') \<and>
   (length data < 2 + ulen_of data + 1 + plen_of data \<longrightarrow>
      handleUsernamePasswordAuth ck session data m = Some (session, m)) \<and>
   (length data < 4 \<or> (data ! 3 = 0x01 \<and> length data < 10)
      \<or> (data ! 3 = 0x03 \<and> length data < 5 + unat (data ! 4) + 2) \<longrightarrow>
      handleConnectRequest ck session data m = Some (session, m)) \<and>
   (length data \<le> 3 \<longrightarrow> searchAuthInData ck session data m = Some (session, m))"
  using handleAuthNegotiation_total [of session data]
    handleUsernamePasswordAuth_total [of ck session data m]
    handleConnectRequest_total [of ck session data m]
    handleConnectResponse_total [of session data]
    searchAuthInData_total [of ck session data m]
    analyzeSOCKS5Protocol_total [of ck k data srcIP dstIP srcPort dstPort m]
    AnalyzePacket_total [of ck data srcIP dstIP srcPort dstPort m]
    handleUsernamePasswordAuth_truncated [of data ck session m]
    handleConnectRequest_truncated [of data ck session m]
    searchAuthInData_short [of data ck session m]
  by (simp add: isAuthNegotiation_eq isUsernamePasswordAuth_eq isConnectRequest_eq
      isConnectResponse_eq isSOCKS5Traffic_eq accumulatePacket_eq)

lemma engine_never_panics_example:
  "length [0x01, 0x03, 0x62 :: byte] < 2 + ulen_of [0x01, 0x03, 0x62] + 1 + plen_of [0x01, 0x03, 0x62] \<and>
   handleUsernamePasswordAuth ck0 fresh_session [0x01, 0x03, 0x62] (NewEnhancedSOCKS5Monitor 7)
     = Some (fresh_session, NewEnhancedSOCKS5Monitor 7) \<and>
   handleConnectRequest ck0 fresh_session [0x01, 0x03, 0x62] (NewEnhancedSOCKS5Monitor 7)
     = Some (fresh_session, NewEnhancedSOCKS5Monitor 7) \<and>
   searchAuthInData ck0 fresh_session [0x01, 0x03, 0x62] (NewEnhancedSOCKS5Monitor 7)
     = Some (fresh_session, NewEnhancedSOCKS5Monitor 7) \<and>
   (\<exists>m'. AnalyzePacket ck0 [0x01, 0x03, 0x62] ''10.0.0.2'' ''10.0.0.1'' 40000 1080
           (NewEnhancedSOCKS5Monitor 7) = Some m')"
  using engine_never_panics [of "[0x01, 0x03, 0x62]" 1080 fresh_session ck0
      "NewEnhancedSOCKS5Monitor 7" key0 "''10.0.0.2''" "''10.0.0.1''" 40000]
  by (simp add: ulen_of_def plen_of_def)

text \<open>
  Claim C10. The claim says that no input makes an operation of the engine crash or read
  out of range, and that the worst outcome of a malformed or truncated input is a missed
  extraction with no output. The first half holds (\<open>engine_never_panics\<close>), and so
  does the second for truncated input. A malformed input does produce output: the frame
  01 03 b o b 00 announces a password of length 0, which is not a valid frame and for which
  the capture program produces no event, yet \<open>handleUsernamePasswordAuth\<close> stores the
  username bob with an empty password, marks the session authenticated and prints a
  report.
\<close>

theorem malformed_frame_gives_output:
  "\<not> valid_auth_frame plen0_frame \<and> ulen_of plen0_frame = 3 \<and> plen_of plen0_frame = 0 \<and>
   observe (feed plen0_frame (NewEnhancedSOCKS5Monitor 7)) =
     Some (Some (fresh_session\<lparr>Username := ''bob'', Password := [],
                                 AuthTime := tStamp ck0, Status := AuthSucceeded\<rparr>), 1) \<and>
   extract_auth 0x700000007 5 (bob_segment\<lparr>payload := plen0_frame\<rparr>) = None"
  by (simp add: plen0_frame_def frame_defs scenario_defs extract_auth_eq str_bob)

end
